theory Spec2Isabelle
  imports Main "HOL-Library.Word" "HOL-Library.Monad_Syntax"
begin

unbundle bit_operations_syntax

section \<open>Descriptor builders of jaxlib/gpu/solver.cc\<close>

text \<open>
  The file solver.cc resolves a NumPy dtype to one of four element kinds, asks the vendor's
  dense solver library how much scratch memory an operation needs, and packs the operation's
  parameters into an opaque byte string. The embedding below follows the functions of that
  file one by one. C \<open>int\<close> is a 32-bit word, \<open>std::int64_t\<close> and \<open>size_t\<close> are 64-bit words
  (the LP64 data model of the platforms the vendor libraries run on), so that every
  conversion of the source is a cast that can be read off the definitions.
\<close>

subsection \<open>Machine types\<close>

type_synonym cint = "32 word"
type_synonym int64 = "64 word"
type_synonym byte = "8 word"

text \<open>Integer conversion of an \<open>int\<close> operand to \<open>size_t\<close>: sign extension to 64 bits.\<close>

definition int_to_size_t :: "cint \<Rightarrow> int64" where
  "int_to_size_t x = scast x"

text \<open>Conversion of a 64-bit value to \<open>int\<close>: the low 32 bits.\<close>

definition int64_to_int :: "int64 \<Rightarrow> cint" where
  "int64_to_int x = ucast x"

text \<open>\<open>sizeof(void*)\<close> and the sizes of the typed pointers, in bytes.\<close>

definition sizeof_pointer :: int64 where
  "sizeof_pointer = 8"

subsection \<open>Element kinds and the dtype resolver\<close>

datatype SolverType = F32 | F64 | C64 | C128

text \<open>
  Of a \<open>py::dtype\<close> the resolver reads \<open>kind()\<close>, a character, and \<open>itemsize()\<close>, which it
  stores in the \<open>int\<close> component of the key \<open>std::pair<char, int>\<close>.
\<close>

record dtype =
  kind :: char
  itemsize :: cint

text \<open>
  \<open>std::invalid_argument\<close> is thrown by the resolver with the text
  \<open>Unsupported dtype\<close> followed by the \<open>repr\<close> of the dtype; the model keeps the dtype itself.
  \<open>JAX_THROW_IF_ERROR\<close> throws \<open>std::runtime_error\<close> for a status that is not OK: the
  status of the pool that has no handle to lend, or the status of a vendor call, of which
  the model keeps the name of the call and the status code.
\<close>

datatype failure = handle_unavailable | call_failed string nat

datatype error =
  invalid_argument dtype
  | runtime_error failure

text \<open>The static table \<open>types\<close> of \<open>DtypeToSolverType\<close>.\<close>

definition types :: "(char \<times> cint) \<rightharpoonup> SolverType" where
  "types = map_of
     [((CHR ''f'', 4), F32),
      ((CHR ''f'', 8), F64),
      ((CHR ''c'', 8), C64),
      ((CHR ''c'', 16), C128)]"

definition DtypeToSolverType :: "dtype \<Rightarrow> error + SolverType" where
  "DtypeToSolverType np_type =
     (case types (kind np_type, itemsize np_type) of
        None \<Rightarrow> Inl (invalid_argument np_type)
      | Some t \<Rightarrow> Inr t)"

subsection \<open>Operation descriptors\<close>

text \<open>
  The vendor's enumerations the builders store. On the CUDA build \<open>gpusolverEigMode_t\<close>
  is \<open>cusolverEigMode_t\<close>, whose two values the source names
  \<open>CUSOLVER_EIG_MODE_NOVECTOR\<close> and \<open>GPUSOLVER_EIG_MODE_VECTOR\<close>.
\<close>

datatype gpusolverFillMode_t = GPUSOLVER_FILL_MODE_LOWER | GPUSOLVER_FILL_MODE_UPPER

datatype gpusolverEigMode_t = CUSOLVER_EIG_MODE_NOVECTOR | GPUSOLVER_EIG_MODE_VECTOR

text \<open>
  Modelled from the spec: the descriptor structs are declared in solver_kernels.h, which is
  not among the sources. Each constructor takes the fields in the order of the aggregate
  initialiser of its builder, for instance \<open>PotrfDescriptor{type, uplo, b, n, lwork}\<close>;
  integer fields are C ints as the builder's variables are, the job flags of gesvd are
  \<open>signed char\<close>, and the tolerance of csrlsvqr, a \<open>double\<close> that the builder only copies,
  is kept as its 64-bit pattern.
\<close>

datatype OperationDescriptor =
  PotrfDescriptor SolverType gpusolverFillMode_t cint cint cint
  | GetrfDescriptor SolverType cint cint cint cint
  | GeqrfDescriptor SolverType cint cint cint cint
  | CsrlsvqrDescriptor SolverType cint cint cint int64
  | OrgqrDescriptor SolverType cint cint cint cint cint
  | SyevdDescriptor SolverType gpusolverFillMode_t cint cint cint
  | SyevjDescriptor SolverType gpusolverFillMode_t cint cint cint
  | GesvdDescriptor SolverType cint cint cint cint char char
  | GesvdjDescriptor SolverType cint cint cint cint gpusolverEigMode_t cint
  | SytrdDescriptor SolverType gpusolverFillMode_t cint cint cint cint

text \<open>The operation families, named as the kernels of \<open>Registrations\<close> are.\<close>

datatype family =
  Potrf | Getrf | Geqrf | Csrlsvqr | Orgqr | Syevd | Syevj | Gesvd | Gesvdj | Sytrd

fun family_of :: "OperationDescriptor \<Rightarrow> family" where
  "family_of (PotrfDescriptor t u b n l) = Potrf"
| "family_of (GetrfDescriptor t b m n l) = Getrf"
| "family_of (GeqrfDescriptor t b m n l) = Geqrf"
| "family_of (CsrlsvqrDescriptor t n z r tol) = Csrlsvqr"
| "family_of (OrgqrDescriptor t b m n k l) = Orgqr"
| "family_of (SyevdDescriptor t u b n l) = Syevd"
| "family_of (SyevjDescriptor t u b n l) = Syevj"
| "family_of (GesvdDescriptor t b m n l ju jv) = Gesvd"
| "family_of (GesvdjDescriptor t b m n l jz e) = Gesvdj"
| "family_of (SytrdDescriptor t u b n lda l) = Sytrd"

subsection \<open>The descriptor packer\<close>

text \<open>
  Modelled from the spec: \<open>PackDescriptor\<close> and the kernels' unpacking are defined in
  kernel_pybind11_helpers.h and kernel_helpers.h, which are not among the sources. The spec
  asks for a total function from a record to an opaque byte string of fixed layout, on
  which producer and consumer agree, and for an unpacking that is its exact inverse. The
  model writes the fields in their order, each in a fixed number of bytes, lowest byte
  first: four bytes for an \<open>int\<close> and for an enumeration (numbered in declaration order),
  one byte for a \<open>signed char\<close>, eight bytes for a \<open>double\<close>. Unpacking is typed by the
  family whose kernel reads the bytes, and fails on a string of another length or on a
  number that names no enumerator.
\<close>

definition put_int :: "cint \<Rightarrow> byte list" where
  "put_int w = [ucast w, ucast (drop_bit 8 w), ucast (drop_bit 16 w), ucast (drop_bit 24 w)]"

definition int_of_bytes :: "byte \<Rightarrow> byte \<Rightarrow> byte \<Rightarrow> byte \<Rightarrow> cint" where
  "int_of_bytes b0 b1 b2 b3 =
     ucast b0 OR push_bit 8 (ucast b1) OR push_bit 16 (ucast b2) OR push_bit 24 (ucast b3)"

fun get_int :: "byte list \<Rightarrow> (cint \<times> byte list) option" where
  "get_int (b0 # b1 # b2 # b3 # rest) = Some (int_of_bytes b0 b1 b2 b3, rest)"
| "get_int _ = None"

definition put_double :: "int64 \<Rightarrow> byte list" where
  "put_double w = put_int (ucast w) @ put_int (ucast (drop_bit 32 w))"

definition get_double :: "byte list \<Rightarrow> (int64 \<times> byte list) option" where
  "get_double bs = do {
     (lo, r1) \<leftarrow> get_int bs;
     (hi, r2) \<leftarrow> get_int r1;
     Some (ucast lo OR push_bit 32 (ucast hi), r2)
   }"

definition put_char :: "char \<Rightarrow> byte list" where
  "put_char c = [of_char c]"

fun get_char :: "byte list \<Rightarrow> (char \<times> byte list) option" where
  "get_char (b # rest) = Some (char_of (unat b), rest)"
| "get_char [] = None"

fun SolverType_code :: "SolverType \<Rightarrow> cint" where
  "SolverType_code F32 = 0"
| "SolverType_code F64 = 1"
| "SolverType_code C64 = 2"
| "SolverType_code C128 = 3"

definition SolverType_of_code :: "cint \<Rightarrow> SolverType option" where
  "SolverType_of_code w =
     (if w = 0 then Some F32 else if w = 1 then Some F64
      else if w = 2 then Some C64 else if w = 3 then Some C128 else None)"

fun FillMode_code :: "gpusolverFillMode_t \<Rightarrow> cint" where
  "FillMode_code GPUSOLVER_FILL_MODE_LOWER = 0"
| "FillMode_code GPUSOLVER_FILL_MODE_UPPER = 1"

definition FillMode_of_code :: "cint \<Rightarrow> gpusolverFillMode_t option" where
  "FillMode_of_code w =
     (if w = 0 then Some GPUSOLVER_FILL_MODE_LOWER
      else if w = 1 then Some GPUSOLVER_FILL_MODE_UPPER else None)"

fun EigMode_code :: "gpusolverEigMode_t \<Rightarrow> cint" where
  "EigMode_code CUSOLVER_EIG_MODE_NOVECTOR = 0"
| "EigMode_code GPUSOLVER_EIG_MODE_VECTOR = 1"

definition EigMode_of_code :: "cint \<Rightarrow> gpusolverEigMode_t option" where
  "EigMode_of_code w =
     (if w = 0 then Some CUSOLVER_EIG_MODE_NOVECTOR
      else if w = 1 then Some GPUSOLVER_EIG_MODE_VECTOR else None)"

definition put_type :: "SolverType \<Rightarrow> byte list" where
  "put_type t = put_int (SolverType_code t)"

definition get_type :: "byte list \<Rightarrow> (SolverType \<times> byte list) option" where
  "get_type bs = do {
     (w, r) \<leftarrow> get_int bs;
     t \<leftarrow> SolverType_of_code w;
     Some (t, r)
   }"

definition put_fill :: "gpusolverFillMode_t \<Rightarrow> byte list" where
  "put_fill u = put_int (FillMode_code u)"

definition get_fill :: "byte list \<Rightarrow> (gpusolverFillMode_t \<times> byte list) option" where
  "get_fill bs = do {
     (w, r) \<leftarrow> get_int bs;
     u \<leftarrow> FillMode_of_code w;
     Some (u, r)
   }"

definition put_eig :: "gpusolverEigMode_t \<Rightarrow> byte list" where
  "put_eig j = put_int (EigMode_code j)"

definition get_eig :: "byte list \<Rightarrow> (gpusolverEigMode_t \<times> byte list) option" where
  "get_eig bs = do {
     (w, r) \<leftarrow> get_int bs;
     j \<leftarrow> EigMode_of_code w;
     Some (j, r)
   }"

text \<open>The end of the string: a kernel refuses a descriptor of another size.\<close>

definition at_end :: "byte list \<Rightarrow> 'a \<Rightarrow> 'a option" where
  "at_end r d = (if r = [] then Some d else None)"

text \<open>
  Modelled from the spec: \<open>PackDescriptor\<close> of kernel_pybind11_helpers.h, in the layout
  described above. It is a total function: no descriptor is refused.
\<close>

fun PackDescriptor :: "OperationDescriptor \<Rightarrow> byte list" where
  "PackDescriptor (PotrfDescriptor t u b n l) =
     put_type t @ put_fill u @ put_int b @ put_int n @ put_int l"
| "PackDescriptor (GetrfDescriptor t b m n l) =
     put_type t @ put_int b @ put_int m @ put_int n @ put_int l"
| "PackDescriptor (GeqrfDescriptor t b m n l) =
     put_type t @ put_int b @ put_int m @ put_int n @ put_int l"
| "PackDescriptor (CsrlsvqrDescriptor t n z r tol) =
     put_type t @ put_int n @ put_int z @ put_int r @ put_double tol"
| "PackDescriptor (OrgqrDescriptor t b m n k l) =
     put_type t @ put_int b @ put_int m @ put_int n @ put_int k @ put_int l"
| "PackDescriptor (SyevdDescriptor t u b n l) =
     put_type t @ put_fill u @ put_int b @ put_int n @ put_int l"
| "PackDescriptor (SyevjDescriptor t u b n l) =
     put_type t @ put_fill u @ put_int b @ put_int n @ put_int l"
| "PackDescriptor (GesvdDescriptor t b m n l ju jv) =
     put_type t @ put_int b @ put_int m @ put_int n @ put_int l @ put_char ju @ put_char jv"
| "PackDescriptor (GesvdjDescriptor t b m n l jz e) =
     put_type t @ put_int b @ put_int m @ put_int n @ put_int l @ put_eig jz @ put_int e"
| "PackDescriptor (SytrdDescriptor t u b n lda l) =
     put_type t @ put_fill u @ put_int b @ put_int n @ put_int lda @ put_int l"

text \<open>
  Modelled from the spec: the unpacking that the kernel of each family applies to the
  bytes it is handed (\<open>UnpackDescriptor\<close> of kernel_helpers.h), the inverse the spec asks
  for.
\<close>

fun UnpackDescriptor :: "family \<Rightarrow> byte list \<Rightarrow> OperationDescriptor option" where
  "UnpackDescriptor Potrf bs = do {
     (t, r1) \<leftarrow> get_type bs; (u, r2) \<leftarrow> get_fill r1; (b, r3) \<leftarrow> get_int r2;
     (n, r4) \<leftarrow> get_int r3; (l, r5) \<leftarrow> get_int r4;
     at_end r5 (PotrfDescriptor t u b n l) }"
| "UnpackDescriptor Getrf bs = do {
     (t, r1) \<leftarrow> get_type bs; (b, r2) \<leftarrow> get_int r1; (m, r3) \<leftarrow> get_int r2;
     (n, r4) \<leftarrow> get_int r3; (l, r5) \<leftarrow> get_int r4;
     at_end r5 (GetrfDescriptor t b m n l) }"
| "UnpackDescriptor Geqrf bs = do {
     (t, r1) \<leftarrow> get_type bs; (b, r2) \<leftarrow> get_int r1; (m, r3) \<leftarrow> get_int r2;
     (n, r4) \<leftarrow> get_int r3; (l, r5) \<leftarrow> get_int r4;
     at_end r5 (GeqrfDescriptor t b m n l) }"
| "UnpackDescriptor Csrlsvqr bs = do {
     (t, r1) \<leftarrow> get_type bs; (n, r2) \<leftarrow> get_int r1; (z, r3) \<leftarrow> get_int r2;
     (r, r4) \<leftarrow> get_int r3; (tol, r5) \<leftarrow> get_double r4;
     at_end r5 (CsrlsvqrDescriptor t n z r tol) }"
| "UnpackDescriptor Orgqr bs = do {
     (t, r1) \<leftarrow> get_type bs; (b, r2) \<leftarrow> get_int r1; (m, r3) \<leftarrow> get_int r2;
     (n, r4) \<leftarrow> get_int r3; (k, r5) \<leftarrow> get_int r4; (l, r6) \<leftarrow> get_int r5;
     at_end r6 (OrgqrDescriptor t b m n k l) }"
| "UnpackDescriptor Syevd bs = do {
     (t, r1) \<leftarrow> get_type bs; (u, r2) \<leftarrow> get_fill r1; (b, r3) \<leftarrow> get_int r2;
     (n, r4) \<leftarrow> get_int r3; (l, r5) \<leftarrow> get_int r4;
     at_end r5 (SyevdDescriptor t u b n l) }"
| "UnpackDescriptor Syevj bs = do {
     (t, r1) \<leftarrow> get_type bs; (u, r2) \<leftarrow> get_fill r1; (b, r3) \<leftarrow> get_int r2;
     (n, r4) \<leftarrow> get_int r3; (l, r5) \<leftarrow> get_int r4;
     at_end r5 (SyevjDescriptor t u b n l) }"
| "UnpackDescriptor Gesvd bs = do {
     (t, r1) \<leftarrow> get_type bs; (b, r2) \<leftarrow> get_int r1; (m, r3) \<leftarrow> get_int r2;
     (n, r4) \<leftarrow> get_int r3; (l, r5) \<leftarrow> get_int r4;
     (ju, r6) \<leftarrow> get_char r5; (jv, r7) \<leftarrow> get_char r6;
     at_end r7 (GesvdDescriptor t b m n l ju jv) }"
| "UnpackDescriptor Gesvdj bs = do {
     (t, r1) \<leftarrow> get_type bs; (b, r2) \<leftarrow> get_int r1; (m, r3) \<leftarrow> get_int r2;
     (n, r4) \<leftarrow> get_int r3; (l, r5) \<leftarrow> get_int r4;
     (jz, r6) \<leftarrow> get_eig r5; (e, r7) \<leftarrow> get_int r6;
     at_end r7 (GesvdjDescriptor t b m n l jz e) }"
| "UnpackDescriptor Sytrd bs = do {
     (t, r1) \<leftarrow> get_type bs; (u, r2) \<leftarrow> get_fill r1; (b, r3) \<leftarrow> get_int r2;
     (n, r4) \<leftarrow> get_int r3; (lda, r5) \<leftarrow> get_int r4; (l, r6) \<leftarrow> get_int r5;
     at_end r6 (SytrdDescriptor t u b n lda l) }"

subsection \<open>The vendor library and the handle pool\<close>

text \<open>
  The state the builders act on: the handles the pool has available, and the number of
  algorithm-parameter objects (\<open>gpuSyevjInfo\<close>, \<open>gesvdjInfo\<close>) that exist.
\<close>

type_synonym handle = nat

record gpu_state =
  pool_handles :: "handle list"
  live_params :: nat

type_synonym 'a gpu = "gpu_state \<Rightarrow> (error + 'a) \<times> gpu_state"

text \<open>
  Modelled from the spec: \<open>SolverHandlePool::Borrow\<close> and the destructor of the handle it
  lends are defined in handle_pool.h and solver_kernels.cc, which are not among the
  sources. By the spec an operation borrows one handle for the duration of a size query
  and returns it afterward, and a pool that cannot supply a handle reports a failure.
\<close>

definition Borrow :: "gpu_state \<Rightarrow> (error + handle) \<times> gpu_state" where
  "Borrow s =
     (case pool_handles s of
        [] \<Rightarrow> (Inl (runtime_error handle_unavailable), s)
      | h # hs \<Rightarrow> (Inr h, s\<lparr>pool_handles := hs\<rparr>))"

definition Return_handle :: "handle \<Rightarrow> gpu_state \<Rightarrow> gpu_state" where
  "Return_handle h s = s\<lparr>pool_handles := h # pool_handles s\<rparr>"

text \<open>
  A local object with a destructor: C++ runs the destructor when the scope is left, by
  \<open>return\<close> or by an exception alike.
\<close>

definition scope_exit :: "(gpu_state \<Rightarrow> gpu_state) \<Rightarrow> 'a gpu \<Rightarrow> 'a gpu" where
  "scope_exit destructor body s = (case body s of (r, s') \<Rightarrow> (r, destructor s'))"

text \<open>
  The vendor's solver library is outside the program: a size query is known by the name
  of its entry point, the handle and the arguments it is called with (the output pointer
  \<open>&lwork\<close> left out), and answers with a status code, 0 for success, and the value it
  writes to \<open>lwork\<close>. Creating a parameter object answers with a status code.
\<close>

datatype arg =
  ArgInt cint
  | ArgFill gpusolverFillMode_t
  | ArgEig gpusolverEigMode_t
  | ArgChar char
  | ArgParams
  | ArgNull

record accelerator =
  bufferSize :: "string \<Rightarrow> handle \<Rightarrow> arg list \<Rightarrow> nat \<times> cint"
  CreateInfo :: "string \<Rightarrow> nat"

text \<open>\<open>JAX_THROW_IF_ERROR(JAX_AS_STATUS(f(handle.get(), ..., &lwork)))\<close>\<close>

definition size_query :: "accelerator \<Rightarrow> string \<Rightarrow> handle \<Rightarrow> arg list \<Rightarrow> error + cint" where
  "size_query acc name h args =
     (case bufferSize acc name h args of
        (status, lwork) \<Rightarrow>
          if status = 0 then Inr lwork else Inl (runtime_error (call_failed name status)))"

text \<open>
  \<open>JAX_THROW_IF_ERROR(JAX_AS_STATUS(gpusolverDnCreateSyevjInfo(&params)))\<close>, and the deleter
  of the \<open>std::unique_ptr\<close> that takes the object over.
\<close>

definition CreateInfo_call :: "accelerator \<Rightarrow> string \<Rightarrow> unit gpu" where
  "CreateInfo_call acc name s =
     (let status = CreateInfo acc name in
      if status = 0 then (Inr (), s\<lparr>live_params := Suc (live_params s)\<rparr>)
      else (Inl (runtime_error (call_failed name status)), s))"

definition DestroyInfo :: "gpu_state \<Rightarrow> gpu_state" where
  "DestroyInfo s = s\<lparr>live_params := live_params s - 1\<rparr>"

subsection \<open>The builders\<close>

text \<open>
  Every builder but the one of csrlsvqr opens with the same four lines: resolve the dtype,
  borrow a handle, throw if the pool reported a failure, and name the handle. The handle
  object \<open>h\<close> lives to the end of the function.
\<close>

definition borrow_scope :: "dtype \<Rightarrow> (SolverType \<Rightarrow> handle \<Rightarrow> 'a gpu) \<Rightarrow> 'a gpu" where
  "borrow_scope dtype body s =
     (case DtypeToSolverType dtype of
        Inl e \<Rightarrow> (Inl e, s)
      | Inr type \<Rightarrow>
          (case Borrow s of
             (Inl e, s1) \<Rightarrow> (Inl e, s1)
           | (Inr handle, s1) \<Rightarrow> scope_exit (Return_handle handle) (body type handle) s1))"

text \<open>Element sizes, as \<open>size_t\<close>.\<close>

definition sizeof_float :: int64 where
  "sizeof_float = 4"

definition sizeof_double :: int64 where
  "sizeof_double = 8"

definition sizeof_gpuComplex :: int64 where
  "sizeof_gpuComplex = 8"

definition sizeof_gpuDoubleComplex :: int64 where
  "sizeof_gpuDoubleComplex = 16"

text \<open>The two builds of the file: \<open>JAX_GPU_CUDA\<close> defined, or not (the HIP build).\<close>

datatype backend = JAX_GPU_CUDA | JAX_GPU_HIP

text \<open>A query that succeeded has written \<open>lwork\<close>; the assignment to \<open>workspace_size\<close> follows.\<close>

definition assign_size :: "error + cint \<Rightarrow> (cint \<Rightarrow> int64) \<Rightarrow> error + cint \<times> int64" where
  "assign_size q bytes = (case q of Inl e \<Rightarrow> Inl e | Inr lwork \<Rightarrow> Inr (lwork, bytes lwork))"

text \<open>
  The fill mode of the builders that take \<open>lower\<close>:
  \<open>lower ? GPUSOLVER_FILL_MODE_LOWER : GPUSOLVER_FILL_MODE_UPPER\<close>.
\<close>

definition fill_mode :: "bool \<Rightarrow> gpusolverFillMode_t" where
  "fill_mode lower = (if lower then GPUSOLVER_FILL_MODE_LOWER else GPUSOLVER_FILL_MODE_UPPER)"

text \<open>
  Each builder is given in two definitions: the \<open>switch\<close> over the element kind (with the
  \<open>if\<close> over the batch count, where the builder has one), which leaves a value in \<open>lwork\<close>
  or throws, and the function around it.
\<close>

text \<open>
  potrf. The source declares \<open>int lwork;\<close> without an initialiser. On the CUDA build with
  \<open>b\<close> other than 1 no statement assigns it before the descriptor is built, so the value
  packed is whatever the variable holds: the model takes that value as the argument
  \<open>lwork_indeterminate\<close>. Every other path of this builder, and every path of the other
  builders, assigns \<open>lwork\<close> by a query or throws. \<open>potrf_sizes\<close> gives the values of
  \<open>lwork\<close> and of the 64-bit \<open>workspace_size\<close> after the \<open>if\<close>. The function returns
  \<open>std::pair<int, py::bytes>\<close>, so \<open>workspace_size\<close> is converted to \<open>int\<close>.
\<close>

definition potrf_sizes ::
  "backend \<Rightarrow> accelerator \<Rightarrow> cint \<Rightarrow> SolverType \<Rightarrow> handle \<Rightarrow> gpusolverFillMode_t \<Rightarrow> cint \<Rightarrow> cint
     \<Rightarrow> error + cint \<times> int64" where
  "potrf_sizes backend acc lwork_indeterminate type handle uplo b n =
     (if b = 1 then
        (case type of
            F32 \<Rightarrow> assign_size
              (size_query acc ''gpusolverDnSpotrf_bufferSize'' handle
                 [ArgFill uplo, ArgInt n, ArgNull, ArgInt n])
              (\<lambda>lwork. int_to_size_t lwork * sizeof_float)
          | F64 \<Rightarrow> assign_size
              (size_query acc ''gpusolverDnDpotrf_bufferSize'' handle
                 [ArgFill uplo, ArgInt n, ArgNull, ArgInt n])
              (\<lambda>lwork. int_to_size_t lwork * sizeof_double)
          | C64 \<Rightarrow> assign_size
              (size_query acc ''gpusolverDnCpotrf_bufferSize'' handle
                 [ArgFill uplo, ArgInt n, ArgNull, ArgInt n])
              (\<lambda>lwork. int_to_size_t lwork * sizeof_gpuComplex)
          | C128 \<Rightarrow> assign_size
              (size_query acc ''gpusolverDnZpotrf_bufferSize'' handle
                 [ArgFill uplo, ArgInt n, ArgNull, ArgInt n])
              (\<lambda>lwork. int_to_size_t lwork * sizeof_gpuDoubleComplex))
      else
        (case backend of
           JAX_GPU_CUDA \<Rightarrow>
             Inr (lwork_indeterminate, sizeof_pointer * int_to_size_t b)
         | JAX_GPU_HIP \<Rightarrow>
             (case type of
                 F32 \<Rightarrow> assign_size
                   (size_query acc ''hipsolverSpotrfBatched_bufferSize'' handle
                      [ArgFill uplo, ArgInt n, ArgNull, ArgInt n, ArgInt b])
                   (\<lambda>lwork. (int_to_size_t lwork * sizeof_float) + (int_to_size_t b * sizeof_pointer))
               | F64 \<Rightarrow> assign_size
                   (size_query acc ''hipsolverDpotrfBatched_bufferSize'' handle
                      [ArgFill uplo, ArgInt n, ArgNull, ArgInt n, ArgInt b])
                   (\<lambda>lwork. (int_to_size_t lwork * sizeof_double) + (int_to_size_t b * sizeof_pointer))
               | C64 \<Rightarrow> assign_size
                   (size_query acc ''hipsolverCpotrfBatched_bufferSize'' handle
                      [ArgFill uplo, ArgInt n, ArgNull, ArgInt n, ArgInt b])
                   (\<lambda>lwork. (int_to_size_t lwork * sizeof_gpuComplex) + (int_to_size_t b * sizeof_pointer))
               | C128 \<Rightarrow> assign_size
                   (size_query acc ''hipsolverZpotrfBatched_bufferSize'' handle
                      [ArgFill uplo, ArgInt n, ArgNull, ArgInt n, ArgInt b])
                   (\<lambda>lwork. (int_to_size_t lwork * sizeof_gpuDoubleComplex) + (int_to_size_t b * sizeof_pointer)))))"

definition BuildPotrfDescriptor ::
  "backend \<Rightarrow> accelerator \<Rightarrow> cint \<Rightarrow> dtype \<Rightarrow> bool \<Rightarrow> cint \<Rightarrow> cint
     \<Rightarrow> (cint \<times> byte list) gpu" where
  "BuildPotrfDescriptor backend acc lwork_indeterminate dtype lower b n =
   borrow_scope dtype (\<lambda>type handle s.
     let uplo = fill_mode lower in
     (case potrf_sizes backend acc lwork_indeterminate type handle uplo b n of
        Inl e \<Rightarrow> Inl e
      | Inr (lwork, workspace_size) \<Rightarrow>
          Inr (int64_to_int workspace_size,
               PackDescriptor (PotrfDescriptor type uplo b n lwork)), s))"

text \<open>getrf and geqrf: the builder returns \<open>lwork\<close> itself.\<close>

definition getrf_bufferSize ::
  "accelerator \<Rightarrow> SolverType \<Rightarrow> handle \<Rightarrow> cint \<Rightarrow> cint \<Rightarrow> error + cint" where
  "getrf_bufferSize acc type handle m n =
     (case type of
         F32 \<Rightarrow> size_query acc ''gpusolverDnSgetrf_bufferSize'' handle
           [ArgInt m, ArgInt n, ArgNull, ArgInt m]
       | F64 \<Rightarrow> size_query acc ''gpusolverDnDgetrf_bufferSize'' handle
           [ArgInt m, ArgInt n, ArgNull, ArgInt m]
       | C64 \<Rightarrow> size_query acc ''gpusolverDnCgetrf_bufferSize'' handle
           [ArgInt m, ArgInt n, ArgNull, ArgInt m]
       | C128 \<Rightarrow> size_query acc ''gpusolverDnZgetrf_bufferSize'' handle
           [ArgInt m, ArgInt n, ArgNull, ArgInt m])"

definition BuildGetrfDescriptor ::
  "accelerator \<Rightarrow> dtype \<Rightarrow> cint \<Rightarrow> cint \<Rightarrow> cint \<Rightarrow> (cint \<times> byte list) gpu" where
  "BuildGetrfDescriptor acc dtype b m n =
   borrow_scope dtype (\<lambda>type handle s.
     (case getrf_bufferSize acc type handle m n of
        Inl e \<Rightarrow> Inl e
      | Inr lwork \<Rightarrow> Inr (lwork, PackDescriptor (GetrfDescriptor type b m n lwork)), s))"

definition geqrf_bufferSize ::
  "accelerator \<Rightarrow> SolverType \<Rightarrow> handle \<Rightarrow> cint \<Rightarrow> cint \<Rightarrow> error + cint" where
  "geqrf_bufferSize acc type handle m n =
     (case type of
         F32 \<Rightarrow> size_query acc ''gpusolverDnSgeqrf_bufferSize'' handle
           [ArgInt m, ArgInt n, ArgNull, ArgInt m]
       | F64 \<Rightarrow> size_query acc ''gpusolverDnDgeqrf_bufferSize'' handle
           [ArgInt m, ArgInt n, ArgNull, ArgInt m]
       | C64 \<Rightarrow> size_query acc ''gpusolverDnCgeqrf_bufferSize'' handle
           [ArgInt m, ArgInt n, ArgNull, ArgInt m]
       | C128 \<Rightarrow> size_query acc ''gpusolverDnZgeqrf_bufferSize'' handle
           [ArgInt m, ArgInt n, ArgNull, ArgInt m])"

definition BuildGeqrfDescriptor ::
  "accelerator \<Rightarrow> dtype \<Rightarrow> cint \<Rightarrow> cint \<Rightarrow> cint \<Rightarrow> (cint \<times> byte list) gpu" where
  "BuildGeqrfDescriptor acc dtype b m n =
   borrow_scope dtype (\<lambda>type handle s.
     (case geqrf_bufferSize acc type handle m n of
        Inl e \<Rightarrow> Inl e
      | Inr lwork \<Rightarrow> Inr (lwork, PackDescriptor (GeqrfDescriptor type b m n lwork)), s))"

text \<open>csrlsvqr, on the CUDA build only: no handle and no query.\<close>

definition BuildCsrlsvqrDescriptor ::
  "dtype \<Rightarrow> cint \<Rightarrow> cint \<Rightarrow> cint \<Rightarrow> int64 \<Rightarrow> error + byte list" where
  "BuildCsrlsvqrDescriptor dtype n nnzA reorder tol =
     (case DtypeToSolverType dtype of
        Inl e \<Rightarrow> Inl e
      | Inr type \<Rightarrow> Inr (PackDescriptor (CsrlsvqrDescriptor type n nnzA reorder tol)))"

text \<open>orgqr/ungqr.\<close>

definition orgqr_bufferSize ::
  "accelerator \<Rightarrow> SolverType \<Rightarrow> handle \<Rightarrow> cint \<Rightarrow> cint \<Rightarrow> cint \<Rightarrow> error + cint" where
  "orgqr_bufferSize acc type handle m n k =
     (case type of
         F32 \<Rightarrow> size_query acc ''gpusolverDnSorgqr_bufferSize'' handle
           [ArgInt m, ArgInt n, ArgInt k, ArgNull, ArgInt m, ArgNull]
       | F64 \<Rightarrow> size_query acc ''gpusolverDnDorgqr_bufferSize'' handle
           [ArgInt m, ArgInt n, ArgInt k, ArgNull, ArgInt m, ArgNull]
       | C64 \<Rightarrow> size_query acc ''gpusolverDnCungqr_bufferSize'' handle
           [ArgInt m, ArgInt n, ArgInt k, ArgNull, ArgInt m, ArgNull]
       | C128 \<Rightarrow> size_query acc ''gpusolverDnZungqr_bufferSize'' handle
           [ArgInt m, ArgInt n, ArgInt k, ArgNull, ArgInt m, ArgNull])"

definition BuildOrgqrDescriptor ::
  "accelerator \<Rightarrow> dtype \<Rightarrow> cint \<Rightarrow> cint \<Rightarrow> cint \<Rightarrow> cint \<Rightarrow> (cint \<times> byte list) gpu" where
  "BuildOrgqrDescriptor acc dtype b m n k =
   borrow_scope dtype (\<lambda>type handle s.
     (case orgqr_bufferSize acc type handle m n k of
        Inl e \<Rightarrow> Inl e
      | Inr lwork \<Rightarrow> Inr (lwork, PackDescriptor (OrgqrDescriptor type b m n k lwork)), s))"

text \<open>syevd/heevd.\<close>

definition syevd_bufferSize ::
  "accelerator \<Rightarrow> SolverType \<Rightarrow> handle \<Rightarrow> gpusolverEigMode_t \<Rightarrow> gpusolverFillMode_t \<Rightarrow> cint \<Rightarrow> error + cint" where
  "syevd_bufferSize acc type handle jobz uplo n =
     (case type of
         F32 \<Rightarrow> size_query acc ''gpusolverDnSsyevd_bufferSize'' handle
           [ArgEig jobz, ArgFill uplo, ArgInt n, ArgNull, ArgInt n, ArgNull]
       | F64 \<Rightarrow> size_query acc ''gpusolverDnDsyevd_bufferSize'' handle
           [ArgEig jobz, ArgFill uplo, ArgInt n, ArgNull, ArgInt n, ArgNull]
       | C64 \<Rightarrow> size_query acc ''gpusolverDnCheevd_bufferSize'' handle
           [ArgEig jobz, ArgFill uplo, ArgInt n, ArgNull, ArgInt n, ArgNull]
       | C128 \<Rightarrow> size_query acc ''gpusolverDnZheevd_bufferSize'' handle
           [ArgEig jobz, ArgFill uplo, ArgInt n, ArgNull, ArgInt n, ArgNull])"

definition BuildSyevdDescriptor ::
  "accelerator \<Rightarrow> dtype \<Rightarrow> bool \<Rightarrow> cint \<Rightarrow> cint \<Rightarrow> (cint \<times> byte list) gpu" where
  "BuildSyevdDescriptor acc dtype lower b n =
   borrow_scope dtype (\<lambda>type handle s.
     let jobz = GPUSOLVER_EIG_MODE_VECTOR; uplo = fill_mode lower in
     (case syevd_bufferSize acc type handle jobz uplo n of
        Inl e \<Rightarrow> Inl e
      | Inr lwork \<Rightarrow> Inr (lwork, PackDescriptor (SyevdDescriptor type uplo b n lwork)), s))"

text \<open>syevj/heevj, with the parameter object \<open>params\<close> held by a \<open>std::unique_ptr\<close>.\<close>

definition syevj_bufferSize ::
  "accelerator \<Rightarrow> SolverType \<Rightarrow> handle \<Rightarrow> gpusolverEigMode_t \<Rightarrow> gpusolverFillMode_t \<Rightarrow> cint \<Rightarrow> cint \<Rightarrow> error + cint" where
  "syevj_bufferSize acc type handle jobz uplo n batch =
     (if batch = 1 then
        (case type of
            F32 \<Rightarrow> size_query acc ''gpusolverDnSsyevj_bufferSize'' handle
              [ArgEig jobz, ArgFill uplo, ArgInt n, ArgNull, ArgInt n, ArgNull, ArgParams]
          | F64 \<Rightarrow> size_query acc ''gpusolverDnDsyevj_bufferSize'' handle
              [ArgEig jobz, ArgFill uplo, ArgInt n, ArgNull, ArgInt n, ArgNull, ArgParams]
          | C64 \<Rightarrow> size_query acc ''gpusolverDnCheevj_bufferSize'' handle
              [ArgEig jobz, ArgFill uplo, ArgInt n, ArgNull, ArgInt n, ArgNull, ArgParams]
          | C128 \<Rightarrow> size_query acc ''gpusolverDnZheevj_bufferSize'' handle
              [ArgEig jobz, ArgFill uplo, ArgInt n, ArgNull, ArgInt n, ArgNull, ArgParams])
      else
        (case type of
            F32 \<Rightarrow> size_query acc ''gpusolverDnSsyevjBatched_bufferSize'' handle
              [ArgEig jobz, ArgFill uplo, ArgInt n, ArgNull, ArgInt n, ArgNull, ArgParams,
               ArgInt batch]
          | F64 \<Rightarrow> size_query acc ''gpusolverDnDsyevjBatched_bufferSize'' handle
              [ArgEig jobz, ArgFill uplo, ArgInt n, ArgNull, ArgInt n, ArgNull, ArgParams,
               ArgInt batch]
          | C64 \<Rightarrow> size_query acc ''gpusolverDnCheevjBatched_bufferSize'' handle
              [ArgEig jobz, ArgFill uplo, ArgInt n, ArgNull, ArgInt n, ArgNull, ArgParams,
               ArgInt batch]
          | C128 \<Rightarrow> size_query acc ''gpusolverDnZheevjBatched_bufferSize'' handle
              [ArgEig jobz, ArgFill uplo, ArgInt n, ArgNull, ArgInt n, ArgNull, ArgParams,
               ArgInt batch]))"

definition BuildSyevjDescriptor ::
  "accelerator \<Rightarrow> dtype \<Rightarrow> bool \<Rightarrow> cint \<Rightarrow> cint \<Rightarrow> (cint \<times> byte list) gpu" where
  "BuildSyevjDescriptor acc dtype lower batch n =
   borrow_scope dtype (\<lambda>type handle s.
     (case CreateInfo_call acc ''gpusolverDnCreateSyevjInfo'' s of
        (Inl e, s1) \<Rightarrow> (Inl e, s1)
      | (Inr params, s1) \<Rightarrow>
          scope_exit DestroyInfo (\<lambda>s2.
            let jobz = GPUSOLVER_EIG_MODE_VECTOR; uplo = fill_mode lower in
            (case syevj_bufferSize acc type handle jobz uplo n batch of
               Inl e \<Rightarrow> Inl e
             | Inr lwork \<Rightarrow> Inr (lwork, PackDescriptor (SyevjDescriptor type uplo batch n lwork)), s2)) s1))"

text \<open>gesvd. The job flags are set by the nested \<open>if\<close> on \<open>compute_uv\<close> and \<open>full_matrices\<close>.\<close>

definition gesvd_jobs :: "bool \<Rightarrow> bool \<Rightarrow> char \<times> char" where
  "gesvd_jobs compute_uv full_matrices =
     (if compute_uv
      then (if full_matrices then (CHR ''A'', CHR ''A'') else (CHR ''S'', CHR ''S''))
      else (CHR ''N'', CHR ''N''))"

definition gesvd_bufferSize ::
  "accelerator \<Rightarrow> SolverType \<Rightarrow> handle \<Rightarrow> char \<Rightarrow> char \<Rightarrow> cint \<Rightarrow> cint \<Rightarrow> error + cint" where
  "gesvd_bufferSize acc type handle jobu jobvt m n =
     (case type of
         F32 \<Rightarrow> size_query acc ''gpusolverDnSgesvd_bufferSize'' handle
           [ArgChar jobu, ArgChar jobvt, ArgInt m, ArgInt n]
       | F64 \<Rightarrow> size_query acc ''gpusolverDnDgesvd_bufferSize'' handle
           [ArgChar jobu, ArgChar jobvt, ArgInt m, ArgInt n]
       | C64 \<Rightarrow> size_query acc ''gpusolverDnCgesvd_bufferSize'' handle
           [ArgChar jobu, ArgChar jobvt, ArgInt m, ArgInt n]
       | C128 \<Rightarrow> size_query acc ''gpusolverDnZgesvd_bufferSize'' handle
           [ArgChar jobu, ArgChar jobvt, ArgInt m, ArgInt n])"

definition BuildGesvdDescriptor ::
  "accelerator \<Rightarrow> dtype \<Rightarrow> cint \<Rightarrow> cint \<Rightarrow> cint \<Rightarrow> bool \<Rightarrow> bool \<Rightarrow> (cint \<times> byte list) gpu" where
  "BuildGesvdDescriptor acc dtype b m n compute_uv full_matrices =
   borrow_scope dtype (\<lambda>type handle s.
     let (jobu, jobvt) = gesvd_jobs compute_uv full_matrices in
     (case gesvd_bufferSize acc type handle jobu jobvt m n of
        Inl e \<Rightarrow> Inl e
      | Inr lwork \<Rightarrow> Inr (lwork, PackDescriptor (GesvdDescriptor type b m n lwork jobu jobvt)), s))"

text \<open>gesvdj, on the CUDA build only.\<close>

definition gesvdj_bufferSize ::
  "accelerator \<Rightarrow> SolverType \<Rightarrow> handle \<Rightarrow> gpusolverEigMode_t \<Rightarrow> cint \<Rightarrow> cint \<Rightarrow> cint \<Rightarrow> cint \<Rightarrow> error + cint" where
  "gesvdj_bufferSize acc type handle jobz econ m n batch =
     (if batch = 1 then
        (case type of
            F32 \<Rightarrow> size_query acc ''cusolverDnSgesvdj_bufferSize'' handle
              [ArgEig jobz, ArgInt econ, ArgInt m, ArgInt n, ArgNull, ArgInt m, ArgNull,
               ArgNull, ArgInt m, ArgNull, ArgInt n, ArgParams]
          | F64 \<Rightarrow> size_query acc ''cusolverDnDgesvdj_bufferSize'' handle
              [ArgEig jobz, ArgInt econ, ArgInt m, ArgInt n, ArgNull, ArgInt m, ArgNull,
               ArgNull, ArgInt m, ArgNull, ArgInt n, ArgParams]
          | C64 \<Rightarrow> size_query acc ''cusolverDnCgesvdj_bufferSize'' handle
              [ArgEig jobz, ArgInt econ, ArgInt m, ArgInt n, ArgNull, ArgInt m, ArgNull,
               ArgNull, ArgInt m, ArgNull, ArgInt n, ArgParams]
          | C128 \<Rightarrow> size_query acc ''cusolverDnZgesvdj_bufferSize'' handle
              [ArgEig jobz, ArgInt econ, ArgInt m, ArgInt n, ArgNull, ArgInt m, ArgNull,
               ArgNull, ArgInt m, ArgNull, ArgInt n, ArgParams])
      else
        (case type of
            F32 \<Rightarrow> size_query acc ''cusolverDnSgesvdjBatched_bufferSize'' handle
              [ArgEig jobz, ArgInt m, ArgInt n, ArgNull, ArgInt m, ArgNull,
               ArgNull, ArgInt m, ArgNull, ArgInt n, ArgParams, ArgInt batch]
          | F64 \<Rightarrow> size_query acc ''cusolverDnDgesvdjBatched_bufferSize'' handle
              [ArgEig jobz, ArgInt m, ArgInt n, ArgNull, ArgInt m, ArgNull,
               ArgNull, ArgInt m, ArgNull, ArgInt n, ArgParams, ArgInt batch]
          | C64 \<Rightarrow> size_query acc ''cusolverDnCgesvdjBatched_bufferSize'' handle
              [ArgEig jobz, ArgInt m, ArgInt n, ArgNull, ArgInt m, ArgNull,
               ArgNull, ArgInt m, ArgNull, ArgInt n, ArgParams, ArgInt batch]
          | C128 \<Rightarrow> size_query acc ''cusolverDnZgesvdjBatched_bufferSize'' handle
              [ArgEig jobz, ArgInt m, ArgInt n, ArgNull, ArgInt m, ArgNull,
               ArgNull, ArgInt m, ArgNull, ArgInt n, ArgParams, ArgInt batch]))"

definition BuildGesvdjDescriptor ::
  "accelerator \<Rightarrow> dtype \<Rightarrow> cint \<Rightarrow> cint \<Rightarrow> cint \<Rightarrow> bool \<Rightarrow> cint \<Rightarrow> (cint \<times> byte list) gpu" where
  "BuildGesvdjDescriptor acc dtype batch m n compute_uv econ =
   borrow_scope dtype (\<lambda>type handle s.
     (case CreateInfo_call acc ''cusolverDnCreateGesvdjInfo'' s of
        (Inl e, s1) \<Rightarrow> (Inl e, s1)
      | (Inr params, s1) \<Rightarrow>
          scope_exit DestroyInfo (\<lambda>s2.
            let jobz = (if compute_uv then GPUSOLVER_EIG_MODE_VECTOR
                        else CUSOLVER_EIG_MODE_NOVECTOR) in
            (case gesvdj_bufferSize acc type handle jobz econ m n batch of
               Inl e \<Rightarrow> Inl e
             | Inr lwork \<Rightarrow> Inr (lwork, PackDescriptor (GesvdjDescriptor type batch m n lwork jobz econ)), s2)) s1))"

text \<open>sytrd/hetrd: the descriptor holds \<open>n\<close> twice.\<close>

definition sytrd_bufferSize ::
  "accelerator \<Rightarrow> SolverType \<Rightarrow> handle \<Rightarrow> gpusolverFillMode_t \<Rightarrow> cint \<Rightarrow> error + cint" where
  "sytrd_bufferSize acc type handle uplo n =
     (case type of
         F32 \<Rightarrow> size_query acc ''gpusolverDnSsytrd_bufferSize'' handle
           [ArgFill uplo, ArgInt n, ArgNull, ArgInt n, ArgNull, ArgNull, ArgNull]
       | F64 \<Rightarrow> size_query acc ''gpusolverDnDsytrd_bufferSize'' handle
           [ArgFill uplo, ArgInt n, ArgNull, ArgInt n, ArgNull, ArgNull, ArgNull]
       | C64 \<Rightarrow> size_query acc ''gpusolverDnChetrd_bufferSize'' handle
           [ArgFill uplo, ArgInt n, ArgNull, ArgInt n, ArgNull, ArgNull, ArgNull]
       | C128 \<Rightarrow> size_query acc ''gpusolverDnZhetrd_bufferSize'' handle
           [ArgFill uplo, ArgInt n, ArgNull, ArgInt n, ArgNull, ArgNull, ArgNull])"

definition BuildSytrdDescriptor ::
  "accelerator \<Rightarrow> dtype \<Rightarrow> bool \<Rightarrow> cint \<Rightarrow> cint \<Rightarrow> (cint \<times> byte list) gpu" where
  "BuildSytrdDescriptor acc dtype lower b n =
   borrow_scope dtype (\<lambda>type handle s.
     let uplo = fill_mode lower in
     (case sytrd_bufferSize acc type handle uplo n of
        Inl e \<Rightarrow> Inl e
      | Inr lwork \<Rightarrow> Inr (lwork, PackDescriptor (SytrdDescriptor type uplo b n n lwork)), s))"

subsection \<open>Byte counts, in the words of the spec\<close>

text \<open>
  The spec speaks of the element width of an element kind, of the pointer width, and of
  the workspace byte count of potrf as a product and a sum of integers. These definitions
  follow the spec, over the integers, to be compared with what the builder computes in
  machine arithmetic.
\<close>

fun element_width :: "SolverType \<Rightarrow> int" where
  "element_width F32 = 4"
| "element_width F64 = 8"
| "element_width C64 = 8"
| "element_width C128 = 16"

definition pointer_width :: int where
  "pointer_width = 8"

definition potrf_byte_count :: "backend \<Rightarrow> SolverType \<Rightarrow> cint \<Rightarrow> cint \<Rightarrow> int" where
  "potrf_byte_count backend type b lwork =
     (if b = 1 then sint lwork * element_width type
      else (case backend of
              JAX_GPU_CUDA \<Rightarrow> sint b * pointer_width
            | JAX_GPU_HIP \<Rightarrow> sint lwork * element_width type + sint b * pointer_width))"

text \<open>The integers that a C \<open>int\<close> can hold.\<close>

definition representable_int :: "int \<Rightarrow> bool" where
  "representable_int k = (- (2 ^ 31) \<le> k \<and> k < 2 ^ 31)"

subsection \<open>Sample inputs\<close>

definition float32 :: dtype where
  "float32 = \<lparr>kind = CHR ''f'', itemsize = 4\<rparr>"

definition complex64 :: dtype where
  "complex64 = \<lparr>kind = CHR ''c'', itemsize = 8\<rparr>"

text \<open>A pool with one handle and no parameter object alive.\<close>

definition pool_of_one :: gpu_state where
  "pool_of_one = \<lparr>pool_handles = [0], live_params = 0\<rparr>"

text \<open>A library in which every call succeeds and every size query writes the given count.\<close>

definition answering :: "cint \<Rightarrow> accelerator" where
  "answering lwork =
     \<lparr>bufferSize = (\<lambda>name h args. (0, lwork)), CreateInfo = (\<lambda>name. 0)\<rparr>"

text \<open>
  A library whose size queries of four arguments succeed and write the leading dimension
  they were given, the fourth argument, to \<open>lwork\<close>; every other size query fails.
\<close>

definition echo_lda :: accelerator where
  "echo_lda =
     \<lparr>bufferSize = (\<lambda>name h args.
        (case args of
           [a0, a1, a2, ArgInt lda] \<Rightarrow> (0, lda)
         | _ \<Rightarrow> (1, 0))),
      CreateInfo = (\<lambda>name. 0)\<rparr>"

text \<open>
  The library that answers as \<open>acc\<close> does to a size query with exactly the given
  arguments, and fails every other size query.
\<close>

definition only_args :: "arg list \<Rightarrow> accelerator \<Rightarrow> accelerator" where
  "only_args expected acc =
     acc\<lparr>bufferSize := (\<lambda>name h args.
            if args = expected then bufferSize acc name h args else (1, 0))\<rparr>"

section \<open>Properties\<close>

subsection \<open>Packing and unpacking\<close>

lemma int_of_bytes_put_int:
  "int_of_bytes (ucast w) (ucast (drop_bit 8 w)) (ucast (drop_bit 16 w)) (ucast (drop_bit 24 w)) = w"
  unfolding int_of_bytes_def
proof (rule bit_word_eqI)
  fix i :: nat
  assume i: "i < LENGTH(32)"
  consider "i < 8" | "8 \<le> i" "i < 16" | "16 \<le> i" "i < 24" | "24 \<le> i"
    by linarith
  then show "bit (ucast (ucast w :: byte) OR push_bit 8 (ucast (ucast (drop_bit 8 w) :: byte))
        OR push_bit 16 (ucast (ucast (drop_bit 16 w) :: byte))
        OR push_bit 24 (ucast (ucast (drop_bit 24 w) :: byte)) :: cint) i = bit w i"
    using i by cases (auto simp: bit_simps)
qed

lemma get_put_int [simp]: "get_int (put_int w @ rest) = Some (w, rest)"
  by (simp add: put_int_def int_of_bytes_put_int)

lemma halves_of_int64:
  "ucast (ucast w :: cint) OR push_bit 32 (ucast (ucast (drop_bit 32 w) :: cint)) = (w :: int64)"
proof (rule bit_word_eqI)
  fix i :: nat
  assume i: "i < LENGTH(64)"
  consider "i < 32" | "32 \<le> i"
    by linarith
  then show "bit (ucast (ucast w :: cint)
        OR push_bit 32 (ucast (ucast (drop_bit 32 w) :: cint)) :: int64) i = bit w i"
    using i by cases (auto simp: bit_simps)
qed

lemma get_put_double [simp]: "get_double (put_double w @ rest) = Some (w, rest)"
  by (simp add: get_double_def put_double_def halves_of_int64)

lemma unat_of_char: "unat (of_char c :: byte) = of_char c"
proof -
  have "(of_char c :: byte) = of_nat (of_char c)"
    by (simp only: of_nat_of_char)
  then have "unat (of_char c :: byte) = (of_char c :: nat) mod 256"
    by (simp add: unat_of_nat)
  then show ?thesis by simp
qed

lemma get_put_char [simp]: "get_char (put_char c @ rest) = Some (c, rest)"
  by (simp add: put_char_def unat_of_char)

lemma SolverType_of_code_code [simp]: "SolverType_of_code (SolverType_code t) = Some t"
  by (cases t) (simp_all add: SolverType_of_code_def)

lemma FillMode_of_code_code [simp]: "FillMode_of_code (FillMode_code u) = Some u"
  by (cases u) (simp_all add: FillMode_of_code_def)

lemma EigMode_of_code_code [simp]: "EigMode_of_code (EigMode_code j) = Some j"
  by (cases j) (simp_all add: EigMode_of_code_def)

lemma get_put_type [simp]: "get_type (put_type t @ rest) = Some (t, rest)"
  by (simp add: get_type_def put_type_def)

lemma get_put_fill [simp]: "get_fill (put_fill u @ rest) = Some (u, rest)"
  by (simp add: get_fill_def put_fill_def)

lemma get_put_eig [simp]: "get_eig (put_eig j @ rest) = Some (j, rest)"
  by (simp add: get_eig_def put_eig_def)

lemma get_put_int_end [simp]: "get_int (put_int w) = Some (w, [])"
  using get_put_int [of w "[]"] by simp

lemma get_put_char_end [simp]: "get_char (put_char c) = Some (c, [])"
  using get_put_char [of c "[]"] by simp

lemma get_put_double_end [simp]: "get_double (put_double w) = Some (w, [])"
  using get_put_double [of w "[]"] by simp

lemma Unpack_Pack: "UnpackDescriptor (family_of d) (PackDescriptor d) = Some d"
  by (cases d) (simp_all add: at_end_def)

text \<open>
  Claim C4. Unpacking the packed bytes of a descriptor, by the kernel of the descriptor's
  family, gives the descriptor back, for every descriptor of every family. Packing is a
  function to byte strings: it has no failure value.
\<close>

theorem PackDescriptor_round_trip:
  "UnpackDescriptor (family_of d) (PackDescriptor d) = Some d"
  by (cases d) (simp_all add: at_end_def)

subsection \<open>The resolver\<close>

text \<open>
  Claim C3. The resolver returns F32 for (float, 4), F64 for (float, 8), C64 for (complex, 8)
  and C128 for (complex, 16). For every other pair of type-class tag and byte width it
  fails with the unsupported-dtype error, which carries the rejected dtype. As
  \<open>SolverType\<close> has four values, no fifth kind is ever returned.
\<close>

theorem DtypeToSolverType_cases:
  "DtypeToSolverType \<lparr>kind = CHR ''f'', itemsize = 4\<rparr> = Inr F32
   \<and> DtypeToSolverType \<lparr>kind = CHR ''f'', itemsize = 8\<rparr> = Inr F64
   \<and> DtypeToSolverType \<lparr>kind = CHR ''c'', itemsize = 8\<rparr> = Inr C64
   \<and> DtypeToSolverType \<lparr>kind = CHR ''c'', itemsize = 16\<rparr> = Inr C128
   \<and> ((kind d, itemsize d) \<notin> {(CHR ''f'', 4), (CHR ''f'', 8), (CHR ''c'', 8), (CHR ''c'', 16)}
        \<longrightarrow> DtypeToSolverType d = Inl (invalid_argument d))
   \<and> (\<forall>t. DtypeToSolverType d = Inr t \<longrightarrow> t \<in> {F32, F64, C64, C128})"
proof -
  have total: "t \<in> {F32, F64, C64, C128}" for t :: SolverType
    by (cases t) simp_all
  show ?thesis
    by (auto simp: DtypeToSolverType_def types_def total)
qed

theorem DtypeToSolverType_cases_witness:
  "(kind \<lparr>kind = CHR ''f'', itemsize = 2\<rparr>, itemsize \<lparr>kind = CHR ''f'', itemsize = 2\<rparr>)
     \<notin> {(CHR ''f'', 4), (CHR ''f'', 8), (CHR ''c'', 8), (CHR ''c'', 16 :: cint)}
   \<and> DtypeToSolverType \<lparr>kind = CHR ''f'', itemsize = 2\<rparr>
       = Inl (invalid_argument \<lparr>kind = CHR ''f'', itemsize = 2\<rparr>)
   \<and> DtypeToSolverType \<lparr>kind = CHR ''f'', itemsize = 4\<rparr> = Inr F32"
  using DtypeToSolverType_cases [of "\<lparr>kind = CHR ''f'', itemsize = 2\<rparr>"]
  by simp

subsection \<open>Handles and parameter objects\<close>

lemma Return_handle_Borrow:
  "pool_handles s = h # hs \<Longrightarrow> Return_handle h (s\<lparr>pool_handles := hs\<rparr>) = s"
  by (cases s) (simp add: Return_handle_def)

lemma snd_borrow_scope:
  assumes "\<And>type handle s'. snd (body type handle s') = s'"
  shows "snd (borrow_scope dtype body s) = s"
proof (cases "DtypeToSolverType dtype")
  case (Inl e)
  then show ?thesis by (simp add: borrow_scope_def)
next
  case (Inr type)
  show ?thesis
  proof (cases "pool_handles s")
    case Nil
    with Inr show ?thesis by (simp add: borrow_scope_def Borrow_def)
  next
    case (Cons h hs)
    have "snd (body type h (s\<lparr>pool_handles := hs\<rparr>)) = s\<lparr>pool_handles := hs\<rparr>"
      by (rule assms)
    with Inr Cons show ?thesis
      by (simp add: borrow_scope_def Borrow_def scope_exit_def split_beta
          Return_handle_Borrow)
  qed
qed

lemma snd_params_scope:
  assumes "\<And>s'. snd (body s') = s'"
  shows "snd (case CreateInfo_call acc name s of
               (Inl e, s1) \<Rightarrow> (Inl e, s1)
             | (Inr params, s1) \<Rightarrow> scope_exit DestroyInfo body s1) = s"
proof (cases "CreateInfo acc name = 0")
  case True
  have "snd (body (s\<lparr>live_params := Suc (live_params s)\<rparr>)) = s\<lparr>live_params := Suc (live_params s)\<rparr>"
    by (rule assms)
  with True show ?thesis
    by (simp add: CreateInfo_call_def scope_exit_def split_beta DestroyInfo_def)
next
  case False
  then show ?thesis by (simp add: CreateInfo_call_def)
qed

text \<open>
  Claim C5. Every builder leaves the state as it found it, on every path: the handle it
  borrowed is back in the pool and, for syevj and gesvdj, the parameter object it created is
  destroyed, whether the builder returns a result or fails in the resolver, in the pool,
  in the creation of the parameter object or in a size query.
\<close>

theorem builders_release:
  "snd (BuildPotrfDescriptor backend acc lw dtype lower b n s) = s
   \<and> snd (BuildGetrfDescriptor acc dtype b m n s) = s
   \<and> snd (BuildGeqrfDescriptor acc dtype b m n s) = s
   \<and> snd (BuildOrgqrDescriptor acc dtype b m n k s) = s
   \<and> snd (BuildSyevdDescriptor acc dtype lower b n s) = s
   \<and> snd (BuildSyevjDescriptor acc dtype lower b n s) = s
   \<and> snd (BuildGesvdDescriptor acc dtype b m n compute_uv full_matrices s) = s
   \<and> snd (BuildGesvdjDescriptor acc dtype b m n compute_uv econ s) = s
   \<and> snd (BuildSytrdDescriptor acc dtype lower b n s) = s"
proof (intro conjI)
  show "snd (BuildPotrfDescriptor backend acc lw dtype lower b n s) = s"
    unfolding BuildPotrfDescriptor_def by (rule snd_borrow_scope) (simp add: Let_def)
  show "snd (BuildGetrfDescriptor acc dtype b m n s) = s"
    unfolding BuildGetrfDescriptor_def by (rule snd_borrow_scope) simp
  show "snd (BuildGeqrfDescriptor acc dtype b m n s) = s"
    unfolding BuildGeqrfDescriptor_def by (rule snd_borrow_scope) simp
  show "snd (BuildOrgqrDescriptor acc dtype b m n k s) = s"
    unfolding BuildOrgqrDescriptor_def by (rule snd_borrow_scope) simp
  show "snd (BuildSyevdDescriptor acc dtype lower b n s) = s"
    unfolding BuildSyevdDescriptor_def by (rule snd_borrow_scope) (simp add: Let_def)
  show "snd (BuildSyevjDescriptor acc dtype lower b n s) = s"
    unfolding BuildSyevjDescriptor_def
    by (rule snd_borrow_scope, rule snd_params_scope) (simp add: Let_def)
  show "snd (BuildGesvdDescriptor acc dtype b m n compute_uv full_matrices s) = s"
    unfolding BuildGesvdDescriptor_def by (rule snd_borrow_scope) (simp add: Let_def split_beta)
  show "snd (BuildGesvdjDescriptor acc dtype b m n compute_uv econ s) = s"
    unfolding BuildGesvdjDescriptor_def
    by (rule snd_borrow_scope, rule snd_params_scope) (simp add: Let_def)
  show "snd (BuildSytrdDescriptor acc dtype lower b n s) = s"
    unfolding BuildSytrdDescriptor_def by (rule snd_borrow_scope) (simp add: Let_def)
qed

subsection \<open>The builders as equations\<close>

text \<open>
  With the scopes resolved, a builder is a cascade: the resolver, the pool, for syevj and
  gesvdj the creation of the parameter object, and the size query.
\<close>

lemma borrow_scope_pure:
  "borrow_scope dtype (\<lambda>type handle s. (f type handle, s)) s =
     (case DtypeToSolverType dtype of
        Inl e \<Rightarrow> (Inl e, s)
      | Inr type \<Rightarrow>
          (case pool_handles s of
             [] \<Rightarrow> (Inl (runtime_error handle_unavailable), s)
           | h # hs \<Rightarrow> (f type h, s)))"
  by (simp add: borrow_scope_def Borrow_def scope_exit_def Return_handle_Borrow
      split: sum.splits list.splits)

lemma params_scope_pure:
  "(case CreateInfo_call acc name s of
      (Inl e, s1) \<Rightarrow> (Inl e, s1)
    | (Inr params, s1) \<Rightarrow> scope_exit DestroyInfo (\<lambda>s2. (r, s2)) s1) =
   (if CreateInfo acc name = 0 then r
    else Inl (runtime_error (call_failed name (CreateInfo acc name))), s)"
  by (simp add: CreateInfo_call_def scope_exit_def DestroyInfo_def)

lemma BuildPotrfDescriptor_eq:
  "BuildPotrfDescriptor backend acc lw dtype lower b n s =
     (case DtypeToSolverType dtype of
        Inl e \<Rightarrow> (Inl e, s)
      | Inr type \<Rightarrow>
          (case pool_handles s of
             [] \<Rightarrow> (Inl (runtime_error handle_unavailable), s)
           | h # hs \<Rightarrow>
               (case potrf_sizes backend acc lw type h (fill_mode lower) b n of
                  Inl e \<Rightarrow> (Inl e, s)
                | Inr (lwork, workspace_size) \<Rightarrow>
                    (Inr (int64_to_int workspace_size,
                          PackDescriptor (PotrfDescriptor type (fill_mode lower) b n lwork)), s))))"
  unfolding BuildPotrfDescriptor_def Let_def
  by (simp add: borrow_scope_pure split: sum.splits list.splits)

lemma BuildGetrfDescriptor_eq:
  "BuildGetrfDescriptor acc dtype b m n s =
     (case DtypeToSolverType dtype of
        Inl e \<Rightarrow> (Inl e, s)
      | Inr type \<Rightarrow>
          (case pool_handles s of
             [] \<Rightarrow> (Inl (runtime_error handle_unavailable), s)
           | h # hs \<Rightarrow>
               (case getrf_bufferSize acc type h m n of
                  Inl e \<Rightarrow> (Inl e, s)
                | Inr lwork \<Rightarrow>
                    (Inr (lwork, PackDescriptor (GetrfDescriptor type b m n lwork)), s))))"
  unfolding BuildGetrfDescriptor_def Let_def split_beta
  by (simp add: borrow_scope_pure split: sum.splits list.splits)

lemma BuildGeqrfDescriptor_eq:
  "BuildGeqrfDescriptor acc dtype b m n s =
     (case DtypeToSolverType dtype of
        Inl e \<Rightarrow> (Inl e, s)
      | Inr type \<Rightarrow>
          (case pool_handles s of
             [] \<Rightarrow> (Inl (runtime_error handle_unavailable), s)
           | h # hs \<Rightarrow>
               (case geqrf_bufferSize acc type h m n of
                  Inl e \<Rightarrow> (Inl e, s)
                | Inr lwork \<Rightarrow>
                    (Inr (lwork, PackDescriptor (GeqrfDescriptor type b m n lwork)), s))))"
  unfolding BuildGeqrfDescriptor_def Let_def split_beta
  by (simp add: borrow_scope_pure split: sum.splits list.splits)

lemma BuildOrgqrDescriptor_eq:
  "BuildOrgqrDescriptor acc dtype b m n k s =
     (case DtypeToSolverType dtype of
        Inl e \<Rightarrow> (Inl e, s)
      | Inr type \<Rightarrow>
          (case pool_handles s of
             [] \<Rightarrow> (Inl (runtime_error handle_unavailable), s)
           | h # hs \<Rightarrow>
               (case orgqr_bufferSize acc type h m n k of
                  Inl e \<Rightarrow> (Inl e, s)
                | Inr lwork \<Rightarrow>
                    (Inr (lwork, PackDescriptor (OrgqrDescriptor type b m n k lwork)), s))))"
  unfolding BuildOrgqrDescriptor_def Let_def split_beta
  by (simp add: borrow_scope_pure split: sum.splits list.splits)

lemma BuildSyevdDescriptor_eq:
  "BuildSyevdDescriptor acc dtype lower b n s =
     (case DtypeToSolverType dtype of
        Inl e \<Rightarrow> (Inl e, s)
      | Inr type \<Rightarrow>
          (case pool_handles s of
             [] \<Rightarrow> (Inl (runtime_error handle_unavailable), s)
           | h # hs \<Rightarrow>
               (case syevd_bufferSize acc type h GPUSOLVER_EIG_MODE_VECTOR (fill_mode lower) n of
                  Inl e \<Rightarrow> (Inl e, s)
                | Inr lwork \<Rightarrow>
                    (Inr (lwork, PackDescriptor (SyevdDescriptor type (fill_mode lower) b n lwork)), s))))"
  unfolding BuildSyevdDescriptor_def Let_def split_beta
  by (simp add: borrow_scope_pure split: sum.splits list.splits)

lemma BuildGesvdDescriptor_eq:
  "BuildGesvdDescriptor acc dtype b m n compute_uv full_matrices s =
     (case DtypeToSolverType dtype of
        Inl e \<Rightarrow> (Inl e, s)
      | Inr type \<Rightarrow>
          (case pool_handles s of
             [] \<Rightarrow> (Inl (runtime_error handle_unavailable), s)
           | h # hs \<Rightarrow>
               (case gesvd_bufferSize acc type h (fst (gesvd_jobs compute_uv full_matrices))
                    (snd (gesvd_jobs compute_uv full_matrices)) m n of
                  Inl e \<Rightarrow> (Inl e, s)
                | Inr lwork \<Rightarrow>
                    (Inr (lwork, PackDescriptor (GesvdDescriptor type b m n lwork
                          (fst (gesvd_jobs compute_uv full_matrices))
                          (snd (gesvd_jobs compute_uv full_matrices)))), s))))"
  unfolding BuildGesvdDescriptor_def Let_def split_beta
  by (simp add: borrow_scope_pure split: sum.splits list.splits)

lemma BuildSytrdDescriptor_eq:
  "BuildSytrdDescriptor acc dtype lower b n s =
     (case DtypeToSolverType dtype of
        Inl e \<Rightarrow> (Inl e, s)
      | Inr type \<Rightarrow>
          (case pool_handles s of
             [] \<Rightarrow> (Inl (runtime_error handle_unavailable), s)
           | h # hs \<Rightarrow>
               (case sytrd_bufferSize acc type h (fill_mode lower) n of
                  Inl e \<Rightarrow> (Inl e, s)
                | Inr lwork \<Rightarrow>
                    (Inr (lwork, PackDescriptor (SytrdDescriptor type (fill_mode lower) b n n lwork)), s))))"
  unfolding BuildSytrdDescriptor_def Let_def split_beta
  by (simp add: borrow_scope_pure split: sum.splits list.splits)

lemma BuildSyevjDescriptor_eq:
  "BuildSyevjDescriptor acc dtype lower batch n s =
     (case DtypeToSolverType dtype of
        Inl e \<Rightarrow> (Inl e, s)
      | Inr type \<Rightarrow>
          (case pool_handles s of
             [] \<Rightarrow> (Inl (runtime_error handle_unavailable), s)
           | h # hs \<Rightarrow>
               (if CreateInfo acc ''gpusolverDnCreateSyevjInfo'' = 0 then
                  (case syevj_bufferSize acc type h GPUSOLVER_EIG_MODE_VECTOR (fill_mode lower) n batch of
                     Inl e \<Rightarrow> (Inl e, s)
                   | Inr lwork \<Rightarrow>
                       (Inr (lwork, PackDescriptor (SyevjDescriptor type (fill_mode lower) batch n lwork)), s))
                else (Inl (runtime_error (call_failed ''gpusolverDnCreateSyevjInfo''
                             (CreateInfo acc ''gpusolverDnCreateSyevjInfo''))), s))))"
  unfolding BuildSyevjDescriptor_def Let_def
  by (simp add: params_scope_pure borrow_scope_pure split: sum.splits list.splits)

lemma BuildGesvdjDescriptor_eq:
  "BuildGesvdjDescriptor acc dtype batch m n compute_uv econ s =
     (case DtypeToSolverType dtype of
        Inl e \<Rightarrow> (Inl e, s)
      | Inr type \<Rightarrow>
          (case pool_handles s of
             [] \<Rightarrow> (Inl (runtime_error handle_unavailable), s)
           | h # hs \<Rightarrow>
               (if CreateInfo acc ''cusolverDnCreateGesvdjInfo'' = 0 then
                  (case gesvdj_bufferSize acc type h
                         (if compute_uv then GPUSOLVER_EIG_MODE_VECTOR
                          else CUSOLVER_EIG_MODE_NOVECTOR) econ m n batch of
                     Inl e \<Rightarrow> (Inl e, s)
                   | Inr lwork \<Rightarrow>
                       (Inr (lwork, PackDescriptor (GesvdjDescriptor type batch m n lwork
                               (if compute_uv then GPUSOLVER_EIG_MODE_VECTOR
                                else CUSOLVER_EIG_MODE_NOVECTOR) econ)), s))
                else (Inl (runtime_error (call_failed ''cusolverDnCreateGesvdjInfo''
                             (CreateInfo acc ''cusolverDnCreateGesvdjInfo''))), s))))"
  unfolding BuildGesvdjDescriptor_def Let_def
  by (simp add: params_scope_pure borrow_scope_pure split: sum.splits list.splits)

subsection \<open>Machine arithmetic of the potrf sizes\<close>

lemma int64_to_int_of_int: "int64_to_int (word_of_int k) = word_of_int k"
  unfolding int64_to_int_def
  by (rule bit_word_eqI) (simp add: bit_simps)



lemma sint_cint_of_int:
  assumes "- (2 ^ 31) \<le> k" and "k < 2 ^ 31"
  shows "sint (word_of_int k :: cint) = k"
  using assms by (simp add: sint_sbintrunc' signed_take_bit_int_eq_self)


lemma assign_size_Inr:
  "assign_size q bytes = Inr (lwork, w) \<Longrightarrow> w = bytes lwork"
  by (auto simp: assign_size_def split: sum.splits)

lemma potrf_sizes_Inr:
  assumes "potrf_sizes backend acc lw type handle uplo b n = Inr (lwork, w)"
  shows "w = word_of_int (potrf_byte_count backend type b lwork)"
  using assms unfolding potrf_sizes_def
  by (cases type; cases backend; cases "b = 1")
    (auto dest!: assign_size_Inr simp: potrf_byte_count_def pointer_width_def
      int_to_size_t_def sizeof_float_def sizeof_double_def
      sizeof_gpuComplex_def sizeof_gpuDoubleComplex_def sizeof_pointer_def)

lemma BuildPotrfDescriptor_Inr:
  assumes "BuildPotrfDescriptor backend acc lw dtype lower b n s = (Inr (ws, opaque), s')"
  shows "\<exists>type handle lwork w. DtypeToSolverType dtype = Inr type
           \<and> potrf_sizes backend acc lw type handle (fill_mode lower) b n = Inr (lwork, w)
           \<and> opaque = PackDescriptor (PotrfDescriptor type (fill_mode lower) b n lwork)
           \<and> w = word_of_int (potrf_byte_count backend type b lwork)
           \<and> ws = int64_to_int w"
proof -
  from assms obtain type handle lwork w where
    "DtypeToSolverType dtype = Inr type" and
    sizes: "potrf_sizes backend acc lw type handle (fill_mode lower) b n = Inr (lwork, w)" and
    "opaque = PackDescriptor (PotrfDescriptor type (fill_mode lower) b n lwork)" and
    "ws = int64_to_int w"
    unfolding BuildPotrfDescriptor_eq
    by (auto split: sum.splits list.splits prod.splits)
  moreover from sizes have "w = word_of_int (potrf_byte_count backend type b lwork)"
    by (rule potrf_sizes_Inr)
  ultimately show ?thesis by blast
qed



subsection \<open>The LU builder\<close>

lemma getrf_bufferSize_only_args:
  "getrf_bufferSize (only_args [ArgInt m, ArgInt n, ArgNull, ArgInt m] acc) type h m n
     = getrf_bufferSize acc type h m n"
  by (cases type) (simp_all add: getrf_bufferSize_def size_query_def only_args_def)

text \<open>The entry point that the \<open>switch\<close> of the LU builder calls for an element kind.\<close>

lemma getrf_bufferSize_query:
  "getrf_bufferSize acc type h m n =
     size_query acc
       (case type of
          F32 \<Rightarrow> ''gpusolverDnSgetrf_bufferSize''
        | F64 \<Rightarrow> ''gpusolverDnDgetrf_bufferSize''
        | C64 \<Rightarrow> ''gpusolverDnCgetrf_bufferSize''
        | C128 \<Rightarrow> ''gpusolverDnZgetrf_bufferSize'')
       h [ArgInt m, ArgInt n, ArgNull, ArgInt m]"
  by (cases type) (simp_all add: getrf_bufferSize_def)

lemma size_query_Inr:
  "size_query acc name h args = Inr lwork \<longleftrightarrow> bufferSize acc name h args = (0, lwork)"
  by (cases "bufferSize acc name h args") (auto simp: size_query_def)

text \<open>
  Claim C7. The LU builder asks size queries with the argument list \<open>(m, n, nullptr, lda = m)\<close>
  only: a library that fails every query with other arguments gives the same outcome.
  The batch count has no part in the size or in the failure returned. Whenever the builder
  returns, the entry point of the resolved element kind has been asked, on the handle
  borrowed from the pool, with the arguments \<open>(m, n, nullptr, lda = m)\<close>; it answered with
  success, and the size returned is the count it wrote. The descriptor packed holds the
  batch count \<open>b\<close>, next to the element kind, \<open>m\<close>, \<open>n\<close> and that count. Conversely, when
  the dtype resolves, the pool lends a handle and that query succeeds, the builder returns
  the count the query wrote, and the descriptor with the batch count \<open>b\<close>.
\<close>

theorem BuildGetrfDescriptor_lda_batch:
  "BuildGetrfDescriptor (only_args [ArgInt m, ArgInt n, ArgNull, ArgInt m] acc) dtype b m n s
     = BuildGetrfDescriptor acc dtype b m n s
   \<and> map_sum id fst (fst (BuildGetrfDescriptor acc dtype b m n s))
     = map_sum id fst (fst (BuildGetrfDescriptor acc dtype b' m n s))
   \<and> (BuildGetrfDescriptor acc dtype b m n s = (Inr (ws, opaque), s')
      \<longrightarrow> (\<exists>type h hs. DtypeToSolverType dtype = Inr type
             \<and> pool_handles s = h # hs
             \<and> bufferSize acc
                  (case type of
                     F32 \<Rightarrow> ''gpusolverDnSgetrf_bufferSize''
                   | F64 \<Rightarrow> ''gpusolverDnDgetrf_bufferSize''
                   | C64 \<Rightarrow> ''gpusolverDnCgetrf_bufferSize''
                   | C128 \<Rightarrow> ''gpusolverDnZgetrf_bufferSize'')
                  h [ArgInt m, ArgInt n, ArgNull, ArgInt m] = (0, ws)
             \<and> UnpackDescriptor Getrf opaque = Some (GetrfDescriptor type b m n ws)))
   \<and> (\<forall>type h hs lwork.
         DtypeToSolverType dtype = Inr type
         \<and> pool_handles s = h # hs
         \<and> bufferSize acc
              (case type of
                 F32 \<Rightarrow> ''gpusolverDnSgetrf_bufferSize''
               | F64 \<Rightarrow> ''gpusolverDnDgetrf_bufferSize''
               | C64 \<Rightarrow> ''gpusolverDnCgetrf_bufferSize''
               | C128 \<Rightarrow> ''gpusolverDnZgetrf_bufferSize'')
              h [ArgInt m, ArgInt n, ArgNull, ArgInt m] = (0, lwork)
         \<longrightarrow> BuildGetrfDescriptor acc dtype b m n s
               = (Inr (lwork, PackDescriptor (GetrfDescriptor type b m n lwork)), s))"
proof (intro conjI impI allI)
  show "BuildGetrfDescriptor (only_args [ArgInt m, ArgInt n, ArgNull, ArgInt m] acc) dtype b m n s
     = BuildGetrfDescriptor acc dtype b m n s"
    unfolding BuildGetrfDescriptor_eq getrf_bufferSize_only_args by (rule refl)
  show "map_sum id fst (fst (BuildGetrfDescriptor acc dtype b m n s))
     = map_sum id fst (fst (BuildGetrfDescriptor acc dtype b' m n s))"
    by (simp add: BuildGetrfDescriptor_eq split: sum.splits list.splits)
next
  assume "BuildGetrfDescriptor acc dtype b m n s = (Inr (ws, opaque), s')"
  then obtain type h hs where type: "DtypeToSolverType dtype = Inr type"
    and pool: "pool_handles s = h # hs"
    and query: "getrf_bufferSize acc type h m n = Inr ws"
    and opaque: "opaque = PackDescriptor (GetrfDescriptor type b m n ws)"
    unfolding BuildGetrfDescriptor_eq by (auto split: sum.splits list.splits)
  from query have "bufferSize acc
      (case type of
         F32 \<Rightarrow> ''gpusolverDnSgetrf_bufferSize''
       | F64 \<Rightarrow> ''gpusolverDnDgetrf_bufferSize''
       | C64 \<Rightarrow> ''gpusolverDnCgetrf_bufferSize''
       | C128 \<Rightarrow> ''gpusolverDnZgetrf_bufferSize'')
      h [ArgInt m, ArgInt n, ArgNull, ArgInt m] = (0, ws)"
    by (simp only: getrf_bufferSize_query size_query_Inr)
  moreover have "UnpackDescriptor Getrf opaque = Some (GetrfDescriptor type b m n ws)"
    using Unpack_Pack [of "GetrfDescriptor type b m n ws"] opaque by simp
  ultimately show "\<exists>type h hs. DtypeToSolverType dtype = Inr type
      \<and> pool_handles s = h # hs
      \<and> bufferSize acc
           (case type of
              F32 \<Rightarrow> ''gpusolverDnSgetrf_bufferSize''
            | F64 \<Rightarrow> ''gpusolverDnDgetrf_bufferSize''
            | C64 \<Rightarrow> ''gpusolverDnCgetrf_bufferSize''
            | C128 \<Rightarrow> ''gpusolverDnZgetrf_bufferSize'')
           h [ArgInt m, ArgInt n, ArgNull, ArgInt m] = (0, ws)
      \<and> UnpackDescriptor Getrf opaque = Some (GetrfDescriptor type b m n ws)"
    using type pool by blast
next
  fix type h hs lwork
  assume asm: "DtypeToSolverType dtype = Inr type
         \<and> pool_handles s = h # hs
         \<and> bufferSize acc
              (case type of
                 F32 \<Rightarrow> ''gpusolverDnSgetrf_bufferSize''
               | F64 \<Rightarrow> ''gpusolverDnDgetrf_bufferSize''
               | C64 \<Rightarrow> ''gpusolverDnCgetrf_bufferSize''
               | C128 \<Rightarrow> ''gpusolverDnZgetrf_bufferSize'')
              h [ArgInt m, ArgInt n, ArgNull, ArgInt m] = (0, lwork)"
  then have "getrf_bufferSize acc type h m n = Inr lwork"
    by (simp only: getrf_bufferSize_query size_query_Inr)
  with asm show "BuildGetrfDescriptor acc dtype b m n s
      = (Inr (lwork, PackDescriptor (GetrfDescriptor type b m n lwork)), s)"
    by (simp add: BuildGetrfDescriptor_eq)
qed

theorem BuildGetrfDescriptor_lda_batch_witness:
  "BuildGetrfDescriptor (only_args [ArgInt 64, ArgInt 32, ArgNull, ArgInt 64] (answering 7))
       complex64 4 64 32 pool_of_one
     = (Inr (7, PackDescriptor (GetrfDescriptor C64 4 64 32 7)), pool_of_one)
   \<and> UnpackDescriptor Getrf (PackDescriptor (GetrfDescriptor C64 4 64 32 7))
     = Some (GetrfDescriptor C64 4 64 32 7)
   \<and> DtypeToSolverType complex64 = Inr C64
   \<and> pool_handles pool_of_one = [0]
   \<and> bufferSize echo_lda ''gpusolverDnCgetrf_bufferSize'' 0
        [ArgInt 64, ArgInt 32, ArgNull, ArgInt 64] = (0, 64)
   \<and> BuildGetrfDescriptor echo_lda complex64 4 64 32 pool_of_one
     = (Inr (64, PackDescriptor (GetrfDescriptor C64 4 64 32 64)), pool_of_one)
   \<and> UnpackDescriptor Getrf (PackDescriptor (GetrfDescriptor C64 4 64 32 64))
     = Some (GetrfDescriptor C64 4 64 32 64)"
proof -
  have run: "BuildGetrfDescriptor (answering 7) complex64 4 64 32 pool_of_one
      = (Inr (7, PackDescriptor (GetrfDescriptor C64 4 64 32 7)), pool_of_one)"
    by code_simp
  have type: "DtypeToSolverType complex64 = Inr C64"
    by code_simp
  have pool: "pool_handles pool_of_one = [0]"
    by (simp add: pool_of_one_def)
  note inst = BuildGetrfDescriptor_lda_batch [of 64 32 "answering 7" complex64 4 pool_of_one 4 7
      "PackDescriptor (GetrfDescriptor C64 4 64 32 7)" pool_of_one]
  from inst run have only: "BuildGetrfDescriptor
      (only_args [ArgInt 64, ArgInt 32, ArgNull, ArgInt 64] (answering 7))
       complex64 4 64 32 pool_of_one
     = (Inr (7, PackDescriptor (GetrfDescriptor C64 4 64 32 7)), pool_of_one)"
    by simp
  from inst run type
  have unpack7: "UnpackDescriptor Getrf (PackDescriptor (GetrfDescriptor C64 4 64 32 7))
     = Some (GetrfDescriptor C64 4 64 32 7)"
    by auto
  have query: "bufferSize echo_lda ''gpusolverDnCgetrf_bufferSize'' 0
        [ArgInt 64, ArgInt 32, ArgNull, ArgInt 64] = (0, 64)"
    by (simp add: echo_lda_def)
  then have query': "bufferSize echo_lda
        (case C64 of
           F32 \<Rightarrow> ''gpusolverDnSgetrf_bufferSize''
         | F64 \<Rightarrow> ''gpusolverDnDgetrf_bufferSize''
         | C64 \<Rightarrow> ''gpusolverDnCgetrf_bufferSize''
         | C128 \<Rightarrow> ''gpusolverDnZgetrf_bufferSize'')
        0 [ArgInt 64, ArgInt 32, ArgNull, ArgInt 64] = (0, 64)"
    by simp
  note echo = BuildGetrfDescriptor_lda_batch [of 64 32 echo_lda complex64 4 pool_of_one 4 64
      "PackDescriptor (GetrfDescriptor C64 4 64 32 64)" pool_of_one]
  from echo type pool query'
  have run_echo: "BuildGetrfDescriptor echo_lda complex64 4 64 32 pool_of_one
     = (Inr (64, PackDescriptor (GetrfDescriptor C64 4 64 32 64)), pool_of_one)"
    by blast
  with echo type
  have unpack64: "UnpackDescriptor Getrf (PackDescriptor (GetrfDescriptor C64 4 64 32 64))
     = Some (GetrfDescriptor C64 4 64 32 64)"
    by auto
  from only unpack7 type pool query run_echo unpack64 show ?thesis
    by (intro conjI)
qed

subsection \<open>The dense SVD builder\<close>

text \<open>
  Claim C6. Whenever the gesvd builder returns, the descriptor packed holds two job flags
  that are both \<open>A\<close> if \<open>compute_uv\<close> and \<open>full_matrices\<close> hold, both \<open>S\<close> if \<open>compute_uv\<close>
  holds and \<open>full_matrices\<close> does not, and both \<open>N\<close> if \<open>compute_uv\<close> does not hold; the
  size query was asked with the same two flags.
\<close>

theorem BuildGesvdDescriptor_job_flags:
  assumes "BuildGesvdDescriptor acc dtype b m n compute_uv full_matrices s
             = (Inr (ws, opaque), s')"
  shows "\<exists>type handle jobu jobvt.
           UnpackDescriptor Gesvd opaque = Some (GesvdDescriptor type b m n ws jobu jobvt)
           \<and> gesvd_bufferSize acc type handle jobu jobvt m n = Inr ws
           \<and> (compute_uv \<and> full_matrices \<longrightarrow> jobu = CHR ''A'' \<and> jobvt = CHR ''A'')
           \<and> (compute_uv \<and> \<not> full_matrices \<longrightarrow> jobu = CHR ''S'' \<and> jobvt = CHR ''S'')
           \<and> (\<not> compute_uv \<longrightarrow> jobu = CHR ''N'' \<and> jobvt = CHR ''N'')"
proof -
  let ?jobu = "fst (gesvd_jobs compute_uv full_matrices)"
  let ?jobvt = "snd (gesvd_jobs compute_uv full_matrices)"
  from assms obtain type handle where
    query: "gesvd_bufferSize acc type handle ?jobu ?jobvt m n = Inr ws" and
    opaque: "opaque = PackDescriptor (GesvdDescriptor type b m n ws ?jobu ?jobvt)"
    unfolding BuildGesvdDescriptor_eq by (auto split: sum.splits list.splits)
  have "UnpackDescriptor Gesvd opaque = Some (GesvdDescriptor type b m n ws ?jobu ?jobvt)"
    using Unpack_Pack [of "GesvdDescriptor type b m n ws ?jobu ?jobvt"] opaque by simp
  moreover have "compute_uv \<and> full_matrices \<longrightarrow> ?jobu = CHR ''A'' \<and> ?jobvt = CHR ''A''"
    by (simp add: gesvd_jobs_def)
  moreover have "compute_uv \<and> \<not> full_matrices \<longrightarrow> ?jobu = CHR ''S'' \<and> ?jobvt = CHR ''S''"
    by (simp add: gesvd_jobs_def)
  moreover have "\<not> compute_uv \<longrightarrow> ?jobu = CHR ''N'' \<and> ?jobvt = CHR ''N''"
    by (simp add: gesvd_jobs_def)
  ultimately show ?thesis using query by blast
qed

theorem BuildGesvdDescriptor_job_flags_witness:
  "BuildGesvdDescriptor (answering 7) float32 1 3 2 True True pool_of_one
     = (Inr (7, PackDescriptor (GesvdDescriptor F32 1 3 2 7 (CHR ''A'') (CHR ''A''))), pool_of_one)
   \<and> BuildGesvdDescriptor (answering 7) float32 1 3 2 True False pool_of_one
     = (Inr (7, PackDescriptor (GesvdDescriptor F32 1 3 2 7 (CHR ''S'') (CHR ''S''))), pool_of_one)
   \<and> BuildGesvdDescriptor (answering 7) float32 1 3 2 False False pool_of_one
     = (Inr (7, PackDescriptor (GesvdDescriptor F32 1 3 2 7 (CHR ''N'') (CHR ''N''))), pool_of_one)
   \<and> (\<exists>type. UnpackDescriptor Gesvd
          (PackDescriptor (GesvdDescriptor F32 1 3 2 7 (CHR ''A'') (CHR ''A'')))
        = Some (GesvdDescriptor type 1 3 2 7 (CHR ''A'') (CHR ''A'')))
   \<and> (\<exists>type. UnpackDescriptor Gesvd
          (PackDescriptor (GesvdDescriptor F32 1 3 2 7 (CHR ''S'') (CHR ''S'')))
        = Some (GesvdDescriptor type 1 3 2 7 (CHR ''S'') (CHR ''S'')))
   \<and> (\<exists>type. UnpackDescriptor Gesvd
          (PackDescriptor (GesvdDescriptor F32 1 3 2 7 (CHR ''N'') (CHR ''N'')))
        = Some (GesvdDescriptor type 1 3 2 7 (CHR ''N'') (CHR ''N'')))"
proof -
  have runA: "BuildGesvdDescriptor (answering 7) float32 1 3 2 True True pool_of_one
     = (Inr (7, PackDescriptor (GesvdDescriptor F32 1 3 2 7 (CHR ''A'') (CHR ''A''))), pool_of_one)"
    by code_simp
  have runS: "BuildGesvdDescriptor (answering 7) float32 1 3 2 True False pool_of_one
     = (Inr (7, PackDescriptor (GesvdDescriptor F32 1 3 2 7 (CHR ''S'') (CHR ''S''))), pool_of_one)"
    by code_simp
  have runN: "BuildGesvdDescriptor (answering 7) float32 1 3 2 False False pool_of_one
     = (Inr (7, PackDescriptor (GesvdDescriptor F32 1 3 2 7 (CHR ''N'') (CHR ''N''))), pool_of_one)"
    by code_simp
  from BuildGesvdDescriptor_job_flags [OF runA]
  have A: "\<exists>type. UnpackDescriptor Gesvd
          (PackDescriptor (GesvdDescriptor F32 1 3 2 7 (CHR ''A'') (CHR ''A'')))
        = Some (GesvdDescriptor type 1 3 2 7 (CHR ''A'') (CHR ''A''))"
    by auto
  from BuildGesvdDescriptor_job_flags [OF runS]
  have S: "\<exists>type. UnpackDescriptor Gesvd
          (PackDescriptor (GesvdDescriptor F32 1 3 2 7 (CHR ''S'') (CHR ''S'')))
        = Some (GesvdDescriptor type 1 3 2 7 (CHR ''S'') (CHR ''S''))"
    by auto
  from BuildGesvdDescriptor_job_flags [OF runN]
  have N: "\<exists>type. UnpackDescriptor Gesvd
          (PackDescriptor (GesvdDescriptor F32 1 3 2 7 (CHR ''N'') (CHR ''N'')))
        = Some (GesvdDescriptor type 1 3 2 7 (CHR ''N'') (CHR ''N''))"
    by auto
  from runA runS runN A S N show ?thesis by blast
qed

subsection \<open>Batched potrf on the CUDA build\<close>

lemma potrf_sizes_cuda_batched:
  "b \<noteq> 1 \<Longrightarrow> potrf_sizes JAX_GPU_CUDA acc lw type h uplo b n
     = Inr (lw, sizeof_pointer * int_to_size_t b)"
  by (simp add: potrf_sizes_def)

lemma int64_to_int_pointers:
  "int64_to_int (sizeof_pointer * int_to_size_t b) = word_of_int (sint b * pointer_width)"
proof -
  have "sizeof_pointer * int_to_size_t b = word_of_int (sint b * pointer_width)"
    by (simp add: sizeof_pointer_def int_to_size_t_def pointer_width_def)
  then show ?thesis
    by (simp only: int64_to_int_of_int)
qed

lemma BuildPotrfDescriptor_cuda_batched_eq:
  assumes "DtypeToSolverType dtype = Inr type" and "pool_handles s = h # hs" and "b \<noteq> 1"
  shows "BuildPotrfDescriptor JAX_GPU_CUDA acc lw dtype lower b n s
     = (Inr (word_of_int (sint b * pointer_width),
             PackDescriptor (PotrfDescriptor type (fill_mode lower) b n lw)), s)"
proof -
  from assms(3) have "potrf_sizes JAX_GPU_CUDA acc lw type h (fill_mode lower) b n
      = Inr (lw, sizeof_pointer * int_to_size_t b)"
    by (rule potrf_sizes_cuda_batched)
  with assms(1,2) show ?thesis
    by (simp add: BuildPotrfDescriptor_eq int64_to_int_pointers)
qed

text \<open>
  Claim C2, amended. On the CUDA build, for a batch count \<open>b\<close> with \<open>1 < b < 2^28\<close>, so that
  \<open>b\<close> times the pointer width is representable in the \<open>int\<close> returned, the potrf builder
  returns exactly \<open>b\<close> times the pointer width, whatever the matrix order, the element kind
  and the answers of the library are.
\<close>

theorem BuildPotrfDescriptor_cuda_batched:
  assumes "DtypeToSolverType dtype = Inr type" and "pool_handles s = h # hs"
    and "1 < sint b" and "sint b < 2 ^ 28"
  shows "\<exists>ws. BuildPotrfDescriptor JAX_GPU_CUDA acc lw dtype lower b n s
             = (Inr (ws, PackDescriptor (PotrfDescriptor type (fill_mode lower) b n lw)), s)
           \<and> sint ws = sint b * pointer_width"
proof -
  from assms(3) have "b \<noteq> 1" by auto
  with assms(1,2) have "BuildPotrfDescriptor JAX_GPU_CUDA acc lw dtype lower b n s
     = (Inr (word_of_int (sint b * pointer_width),
             PackDescriptor (PotrfDescriptor type (fill_mode lower) b n lw)), s)"
    by (rule BuildPotrfDescriptor_cuda_batched_eq)
  moreover have "sint (word_of_int (sint b * pointer_width) :: cint) = sint b * pointer_width"
    using assms(3,4) by (intro sint_cint_of_int) (simp_all add: pointer_width_def)
  ultimately show ?thesis by blast
qed

theorem BuildPotrfDescriptor_cuda_batched_witness:
  "DtypeToSolverType float32 = Inr F32 \<and> pool_handles pool_of_one = [0]
   \<and> 1 < sint (2 :: cint) \<and> sint (2 :: cint) < 2 ^ 28
   \<and> BuildPotrfDescriptor JAX_GPU_CUDA (answering 7) 0 float32 True 2 3 pool_of_one
       = (Inr (16, PackDescriptor (PotrfDescriptor F32 GPUSOLVER_FILL_MODE_LOWER 2 3 0)),
          pool_of_one)
   \<and> sint (16 :: cint) = sint (2 :: cint) * pointer_width"
proof -
  have type: "DtypeToSolverType float32 = Inr F32"
    by code_simp
  have pool: "pool_handles pool_of_one = [0]"
    by (simp add: pool_of_one_def)
  have lo: "1 < sint (2 :: cint)" and hi: "sint (2 :: cint) < 2 ^ 28"
    by simp_all
  have run: "BuildPotrfDescriptor JAX_GPU_CUDA (answering 7) 0 float32 True 2 3 pool_of_one
       = (Inr (16, PackDescriptor (PotrfDescriptor F32 GPUSOLVER_FILL_MODE_LOWER 2 3 0)),
          pool_of_one)"
    by code_simp
  from BuildPotrfDescriptor_cuda_batched [OF type pool lo hi, of "answering 7" 0 True 3]
  obtain ws where
    "BuildPotrfDescriptor JAX_GPU_CUDA (answering 7) 0 float32 True 2 3 pool_of_one
       = (Inr (ws, PackDescriptor (PotrfDescriptor F32 (fill_mode True) 2 3 0)), pool_of_one)"
    and size: "sint ws = sint (2 :: cint) * pointer_width"
    by blast
  with run have "ws = 16"
    by simp
  with size have "sint (16 :: cint) = sint (2 :: cint) * pointer_width"
    by (simp only:)
  with type pool lo hi run show ?thesis by blast
qed

text \<open>
  The claim as stated fails at \<open>b = 2^28\<close>: the count \<open>2^31\<close> is computed in 64 bits and
  returned as the \<open>int\<close> \<open>-2^31\<close>.
\<close>

theorem BuildPotrfDescriptor_cuda_batched_counterexample:
  "fst (BuildPotrfDescriptor JAX_GPU_CUDA (answering 7) 0 float32 True 268435456 3 pool_of_one)
     = Inr (0x80000000,
            PackDescriptor (PotrfDescriptor F32 GPUSOLVER_FILL_MODE_LOWER 268435456 3 0))
   \<and> 1 < sint (268435456 :: cint)
   \<and> sint (0x80000000 :: cint) = - 2147483648
   \<and> sint (268435456 :: cint) * pointer_width = 2147483648"
  by code_simp

subsection \<open>The value of lwork that batched potrf packs on the CUDA build\<close>

text \<open>
  With \<open>b = 1\<close>, and on the HIP build, a size query assigns \<open>lwork\<close> before it is packed, or
  the builder throws: what the uninitialised variable held has no part in the outcome.
\<close>

lemma potrf_sizes_lwork_assigned:
  assumes "b = 1 \<or> backend = JAX_GPU_HIP"
  shows "potrf_sizes backend acc lw type h uplo b n = potrf_sizes backend acc lw' type h uplo b n"
  using assms by (auto simp: potrf_sizes_def)

lemma BuildPotrfDescriptor_lwork_assigned:
  assumes "b = 1 \<or> backend = JAX_GPU_HIP"
  shows "BuildPotrfDescriptor backend acc lw dtype lower b n s
     = BuildPotrfDescriptor backend acc lw' dtype lower b n s"
proof -
  have "potrf_sizes backend acc lw type h (fill_mode lower) b n
      = potrf_sizes backend acc lw' type h (fill_mode lower) b n" for type h
    using assms by (rule potrf_sizes_lwork_assigned)
  then show ?thesis
    by (simp only: BuildPotrfDescriptor_eq)
qed

text \<open>
  Claim C9 fails on the code. On the CUDA build with a batch count other than 1 (here 2),
  whatever the library would answer, the \<open>lwork\<close> field of the packed descriptor is the
  value the uninitialised variable happened to hold: no size query has assigned it.
\<close>

theorem BuildPotrfDescriptor_cuda_batched_lwork:
  "BuildPotrfDescriptor JAX_GPU_CUDA acc lwork_indeterminate float32 True 2 3 pool_of_one
     = (Inr (16, PackDescriptor
          (PotrfDescriptor F32 GPUSOLVER_FILL_MODE_LOWER 2 3 lwork_indeterminate)),
        pool_of_one)"
proof -
  have "DtypeToSolverType float32 = Inr F32"
    by code_simp
  moreover have "pool_handles pool_of_one = [0]"
    by (simp add: pool_of_one_def)
  moreover have "(2 :: cint) \<noteq> 1"
    by simp
  ultimately have "BuildPotrfDescriptor JAX_GPU_CUDA acc lwork_indeterminate float32 True 2 3
      pool_of_one
     = (Inr (word_of_int (sint (2 :: cint) * pointer_width),
             PackDescriptor (PotrfDescriptor F32 (fill_mode True) 2 3 lwork_indeterminate)),
        pool_of_one)"
    by (rule BuildPotrfDescriptor_cuda_batched_eq)
  then show ?thesis
    by (simp add: pointer_width_def fill_mode_def)
qed

text \<open>
  Claim C8 fails on the code, by the same defect. Two calls of the potrf builder of the CUDA
  build with the same dtype, fill mode, batch count 2 and order 3, the same library and the
  same pool, return descriptors that differ in their bytes when the uninitialised \<open>lwork\<close>
  held 0 at one call and 1 at the other.
\<close>

theorem BuildPotrfDescriptor_cuda_batched_not_deterministic:
  "fst (BuildPotrfDescriptor JAX_GPU_CUDA (answering 7) 0 float32 True 2 3 pool_of_one)
     = Inr (16, [0, 0, 0, 0, 0, 0, 0, 0, 2, 0, 0, 0, 3, 0, 0, 0, 0, 0, 0, 0])
   \<and> fst (BuildPotrfDescriptor JAX_GPU_CUDA (answering 7) 1 float32 True 2 3 pool_of_one)
     = Inr (16, [0, 0, 0, 0, 0, 0, 0, 0, 2, 0, 0, 0, 3, 0, 0, 0, 1, 0, 0, 0])"
  by code_simp

subsection \<open>Workspace sizes\<close>

lemma BuildGetrfDescriptor_Inr:
  assumes "BuildGetrfDescriptor acc dtype b m n s = (Inr (ws, opaque), s')"
  shows "\<exists>type handle. DtypeToSolverType dtype = Inr type
           \<and> getrf_bufferSize acc type handle m n = Inr ws
           \<and> UnpackDescriptor Getrf opaque = Some (GetrfDescriptor type b m n ws)"
proof -
  from assms obtain type handle where
    "DtypeToSolverType dtype = Inr type" and
    "getrf_bufferSize acc type handle m n = Inr ws" and
    "opaque = PackDescriptor (GetrfDescriptor type b m n ws)"
    unfolding BuildGetrfDescriptor_eq by (auto split: sum.splits list.splits if_splits)
  then show ?thesis
    using Unpack_Pack [of "GetrfDescriptor type b m n ws"]
    by (simp only: family_of.simps) blast
qed

lemma BuildGeqrfDescriptor_Inr:
  assumes "BuildGeqrfDescriptor acc dtype b m n s = (Inr (ws, opaque), s')"
  shows "\<exists>type handle. DtypeToSolverType dtype = Inr type
           \<and> geqrf_bufferSize acc type handle m n = Inr ws
           \<and> UnpackDescriptor Geqrf opaque = Some (GeqrfDescriptor type b m n ws)"
proof -
  from assms obtain type handle where
    "DtypeToSolverType dtype = Inr type" and
    "geqrf_bufferSize acc type handle m n = Inr ws" and
    "opaque = PackDescriptor (GeqrfDescriptor type b m n ws)"
    unfolding BuildGeqrfDescriptor_eq by (auto split: sum.splits list.splits if_splits)
  then show ?thesis
    using Unpack_Pack [of "GeqrfDescriptor type b m n ws"]
    by (simp only: family_of.simps) blast
qed

lemma BuildOrgqrDescriptor_Inr:
  assumes "BuildOrgqrDescriptor acc dtype b m n k s = (Inr (ws, opaque), s')"
  shows "\<exists>type handle. DtypeToSolverType dtype = Inr type
           \<and> orgqr_bufferSize acc type handle m n k = Inr ws
           \<and> UnpackDescriptor Orgqr opaque = Some (OrgqrDescriptor type b m n k ws)"
proof -
  from assms obtain type handle where
    "DtypeToSolverType dtype = Inr type" and
    "orgqr_bufferSize acc type handle m n k = Inr ws" and
    "opaque = PackDescriptor (OrgqrDescriptor type b m n k ws)"
    unfolding BuildOrgqrDescriptor_eq by (auto split: sum.splits list.splits if_splits)
  then show ?thesis
    using Unpack_Pack [of "OrgqrDescriptor type b m n k ws"]
    by (simp only: family_of.simps) blast
qed

lemma BuildSyevdDescriptor_Inr:
  assumes "BuildSyevdDescriptor acc dtype lower b n s = (Inr (ws, opaque), s')"
  shows "\<exists>type handle. DtypeToSolverType dtype = Inr type
           \<and> syevd_bufferSize acc type handle GPUSOLVER_EIG_MODE_VECTOR (fill_mode lower) n = Inr ws
           \<and> UnpackDescriptor Syevd opaque = Some (SyevdDescriptor type (fill_mode lower) b n ws)"
proof -
  from assms obtain type handle where
    "DtypeToSolverType dtype = Inr type" and
    "syevd_bufferSize acc type handle GPUSOLVER_EIG_MODE_VECTOR (fill_mode lower) n = Inr ws" and
    "opaque = PackDescriptor (SyevdDescriptor type (fill_mode lower) b n ws)"
    unfolding BuildSyevdDescriptor_eq by (auto split: sum.splits list.splits if_splits)
  then show ?thesis
    using Unpack_Pack [of "SyevdDescriptor type (fill_mode lower) b n ws"]
    by (simp only: family_of.simps) blast
qed

lemma BuildSyevjDescriptor_Inr:
  assumes "BuildSyevjDescriptor acc dtype lower b n s = (Inr (ws, opaque), s')"
  shows "\<exists>type handle. DtypeToSolverType dtype = Inr type
           \<and> syevj_bufferSize acc type handle GPUSOLVER_EIG_MODE_VECTOR (fill_mode lower) n b = Inr ws
           \<and> UnpackDescriptor Syevj opaque = Some (SyevjDescriptor type (fill_mode lower) b n ws)"
proof -
  from assms obtain type handle where
    "DtypeToSolverType dtype = Inr type" and
    "syevj_bufferSize acc type handle GPUSOLVER_EIG_MODE_VECTOR (fill_mode lower) n b = Inr ws" and
    "opaque = PackDescriptor (SyevjDescriptor type (fill_mode lower) b n ws)"
    unfolding BuildSyevjDescriptor_eq by (auto split: sum.splits list.splits if_splits)
  then show ?thesis
    using Unpack_Pack [of "SyevjDescriptor type (fill_mode lower) b n ws"]
    by (simp only: family_of.simps) blast
qed

lemma BuildGesvdDescriptor_Inr:
  assumes "BuildGesvdDescriptor acc dtype b m n compute_uv full_matrices s = (Inr (ws, opaque), s')"
  shows "\<exists>type handle jobu jobvt. DtypeToSolverType dtype = Inr type
           \<and> gesvd_bufferSize acc type handle jobu jobvt m n = Inr ws
           \<and> UnpackDescriptor Gesvd opaque = Some (GesvdDescriptor type b m n ws jobu jobvt)"
proof -
  from assms obtain type handle where
    "DtypeToSolverType dtype = Inr type" and
    "gesvd_bufferSize acc type handle (fst (gesvd_jobs compute_uv full_matrices)) (snd (gesvd_jobs compute_uv full_matrices)) m n = Inr ws" and
    "opaque = PackDescriptor (GesvdDescriptor type b m n ws (fst (gesvd_jobs compute_uv full_matrices)) (snd (gesvd_jobs compute_uv full_matrices)))"
    unfolding BuildGesvdDescriptor_eq by (auto split: sum.splits list.splits if_splits)
  then show ?thesis
    using Unpack_Pack [of "GesvdDescriptor type b m n ws (fst (gesvd_jobs compute_uv full_matrices)) (snd (gesvd_jobs compute_uv full_matrices))"]
    by (simp only: family_of.simps) blast
qed

lemma BuildGesvdjDescriptor_Inr:
  assumes "BuildGesvdjDescriptor acc dtype b m n compute_uv econ s = (Inr (ws, opaque), s')"
  shows "\<exists>type handle jobz. DtypeToSolverType dtype = Inr type
           \<and> gesvdj_bufferSize acc type handle jobz econ m n b = Inr ws
           \<and> UnpackDescriptor Gesvdj opaque = Some (GesvdjDescriptor type b m n ws jobz econ)"
proof -
  from assms obtain type handle where
    "DtypeToSolverType dtype = Inr type" and
    "gesvdj_bufferSize acc type handle (if compute_uv then GPUSOLVER_EIG_MODE_VECTOR else CUSOLVER_EIG_MODE_NOVECTOR) econ m n b = Inr ws" and
    "opaque = PackDescriptor (GesvdjDescriptor type b m n ws (if compute_uv then GPUSOLVER_EIG_MODE_VECTOR else CUSOLVER_EIG_MODE_NOVECTOR) econ)"
    unfolding BuildGesvdjDescriptor_eq by (auto split: sum.splits list.splits if_splits)
  then show ?thesis
    using Unpack_Pack [of "GesvdjDescriptor type b m n ws (if compute_uv then GPUSOLVER_EIG_MODE_VECTOR else CUSOLVER_EIG_MODE_NOVECTOR) econ"]
    by (simp only: family_of.simps) blast
qed

lemma BuildSytrdDescriptor_Inr:
  assumes "BuildSytrdDescriptor acc dtype lower b n s = (Inr (ws, opaque), s')"
  shows "\<exists>type handle. DtypeToSolverType dtype = Inr type
           \<and> sytrd_bufferSize acc type handle (fill_mode lower) n = Inr ws
           \<and> UnpackDescriptor Sytrd opaque = Some (SytrdDescriptor type (fill_mode lower) b n n ws)"
proof -
  from assms obtain type handle where
    "DtypeToSolverType dtype = Inr type" and
    "sytrd_bufferSize acc type handle (fill_mode lower) n = Inr ws" and
    "opaque = PackDescriptor (SytrdDescriptor type (fill_mode lower) b n n ws)"
    unfolding BuildSytrdDescriptor_eq by (auto split: sum.splits list.splits if_splits)
  then show ?thesis
    using Unpack_Pack [of "SytrdDescriptor type (fill_mode lower) b n n ws"]
    by (simp only: family_of.simps) blast
qed

lemma BuildPotrfDescriptor_sizes:
  assumes "BuildPotrfDescriptor backend acc lw dtype lower b n s = (Inr (ws, opaque), s')"
  shows "\<exists>type handle lwork w. DtypeToSolverType dtype = Inr type
          \<and> potrf_sizes backend acc lw type handle (fill_mode lower) b n = Inr (lwork, w)
          \<and> UnpackDescriptor Potrf opaque
              = Some (PotrfDescriptor type (fill_mode lower) b n lwork)
          \<and> (b = 1 \<and> representable_int (sint lwork * element_width type)
               \<longrightarrow> sint ws = sint lwork * element_width type)
          \<and> (b \<noteq> 1 \<and> backend = JAX_GPU_HIP
               \<and> representable_int (sint lwork * element_width type + sint b * pointer_width)
               \<longrightarrow> sint ws = sint lwork * element_width type + sint b * pointer_width)
          \<and> (b \<noteq> 1 \<and> backend = JAX_GPU_CUDA \<and> representable_int (sint b * pointer_width)
               \<longrightarrow> sint ws = sint b * pointer_width)"
proof -
  from assms obtain type handle lwork w where
    type: "DtypeToSolverType dtype = Inr type" and
    sizes: "potrf_sizes backend acc lw type handle (fill_mode lower) b n = Inr (lwork, w)" and
    opaque: "opaque = PackDescriptor (PotrfDescriptor type (fill_mode lower) b n lwork)" and
    w: "w = word_of_int (potrf_byte_count backend type b lwork)" and
    ws: "ws = int64_to_int w"
    by (blast dest: BuildPotrfDescriptor_Inr)
  let ?count = "potrf_byte_count backend type b lwork"
  have unpack: "UnpackDescriptor Potrf opaque
      = Some (PotrfDescriptor type (fill_mode lower) b n lwork)"
    using Unpack_Pack [of "PotrfDescriptor type (fill_mode lower) b n lwork"] opaque by simp
  have narrowed: "ws = word_of_int ?count"
    using w ws by (simp only: int64_to_int_of_int)
  have fits: "sint ws = ?count" if "representable_int ?count"
    using that narrowed by (simp add: representable_int_def sint_cint_of_int)
  have single: "b = 1 \<and> representable_int (sint lwork * element_width type)
      \<longrightarrow> sint ws = sint lwork * element_width type"
    using fits by (simp add: potrf_byte_count_def)
  have hip: "b \<noteq> 1 \<and> backend = JAX_GPU_HIP
      \<and> representable_int (sint lwork * element_width type + sint b * pointer_width)
      \<longrightarrow> sint ws = sint lwork * element_width type + sint b * pointer_width"
    using fits by (simp add: potrf_byte_count_def)
  have cuda: "b \<noteq> 1 \<and> backend = JAX_GPU_CUDA \<and> representable_int (sint b * pointer_width)
      \<longrightarrow> sint ws = sint b * pointer_width"
    using fits by (simp add: potrf_byte_count_def)
  from type sizes unpack single hip cuda show ?thesis by blast
qed

text \<open>
  Claim C1, amended. Whenever a builder returns, the workspace size it returns and the
  \<open>lwork\<close> of its descriptor are related as follows. For potrf the size is a byte count,
  provided the count is representable in the \<open>int\<close> returned: \<open>lwork\<close> times the element
  width for \<open>b = 1\<close>; that product plus \<open>b\<close> times the pointer width on the batched path of
  the HIP build; \<open>b\<close> times the pointer width alone on the batched path of the CUDA build.
  For getrf, geqrf, orgqr, syevd, syevj, gesvd, gesvdj and sytrd the size returned is the
  element count \<open>lwork\<close> that the size query reported, not multiplied by the element width,
  and it is the \<open>lwork\<close> field of the descriptor.
\<close>

theorem workspace_size_of_builders:
  "(\<forall>ws opaque s'.
       BuildPotrfDescriptor backend acc lw dtype lower b n s = (Inr (ws, opaque), s') \<longrightarrow>
       (\<exists>type handle lwork w. DtypeToSolverType dtype = Inr type
          \<and> potrf_sizes backend acc lw type handle (fill_mode lower) b n = Inr (lwork, w)
          \<and> UnpackDescriptor Potrf opaque
              = Some (PotrfDescriptor type (fill_mode lower) b n lwork)
          \<and> (b = 1 \<and> representable_int (sint lwork * element_width type)
               \<longrightarrow> sint ws = sint lwork * element_width type)
          \<and> (b \<noteq> 1 \<and> backend = JAX_GPU_HIP
               \<and> representable_int (sint lwork * element_width type + sint b * pointer_width)
               \<longrightarrow> sint ws = sint lwork * element_width type + sint b * pointer_width)
          \<and> (b \<noteq> 1 \<and> backend = JAX_GPU_CUDA \<and> representable_int (sint b * pointer_width)
               \<longrightarrow> sint ws = sint b * pointer_width)))
   \<and> (\<forall>ws opaque s'. BuildGetrfDescriptor acc dtype b m n s = (Inr (ws, opaque), s') \<longrightarrow>
       (\<exists>type handle. DtypeToSolverType dtype = Inr type
          \<and> getrf_bufferSize acc type handle m n = Inr ws
          \<and> UnpackDescriptor Getrf opaque = Some (GetrfDescriptor type b m n ws)))
   \<and> (\<forall>ws opaque s'. BuildGeqrfDescriptor acc dtype b m n s = (Inr (ws, opaque), s') \<longrightarrow>
       (\<exists>type handle. DtypeToSolverType dtype = Inr type
          \<and> geqrf_bufferSize acc type handle m n = Inr ws
          \<and> UnpackDescriptor Geqrf opaque = Some (GeqrfDescriptor type b m n ws)))
   \<and> (\<forall>ws opaque s'. BuildOrgqrDescriptor acc dtype b m n k s = (Inr (ws, opaque), s') \<longrightarrow>
       (\<exists>type handle. DtypeToSolverType dtype = Inr type
          \<and> orgqr_bufferSize acc type handle m n k = Inr ws
          \<and> UnpackDescriptor Orgqr opaque = Some (OrgqrDescriptor type b m n k ws)))
   \<and> (\<forall>ws opaque s'. BuildSyevdDescriptor acc dtype lower b n s = (Inr (ws, opaque), s') \<longrightarrow>
       (\<exists>type handle. DtypeToSolverType dtype = Inr type
          \<and> syevd_bufferSize acc type handle GPUSOLVER_EIG_MODE_VECTOR (fill_mode lower) n = Inr ws
          \<and> UnpackDescriptor Syevd opaque = Some (SyevdDescriptor type (fill_mode lower) b n ws)))
   \<and> (\<forall>ws opaque s'. BuildSyevjDescriptor acc dtype lower b n s = (Inr (ws, opaque), s') \<longrightarrow>
       (\<exists>type handle. DtypeToSolverType dtype = Inr type
          \<and> syevj_bufferSize acc type handle GPUSOLVER_EIG_MODE_VECTOR (fill_mode lower) n b = Inr ws
          \<and> UnpackDescriptor Syevj opaque = Some (SyevjDescriptor type (fill_mode lower) b n ws)))
   \<and> (\<forall>ws opaque s'. BuildGesvdDescriptor acc dtype b m n compute_uv full_matrices s = (Inr (ws, opaque), s') \<longrightarrow>
       (\<exists>type handle jobu jobvt. DtypeToSolverType dtype = Inr type
          \<and> gesvd_bufferSize acc type handle jobu jobvt m n = Inr ws
          \<and> UnpackDescriptor Gesvd opaque = Some (GesvdDescriptor type b m n ws jobu jobvt)))
   \<and> (\<forall>ws opaque s'. BuildGesvdjDescriptor acc dtype b m n compute_uv econ s = (Inr (ws, opaque), s') \<longrightarrow>
       (\<exists>type handle jobz. DtypeToSolverType dtype = Inr type
          \<and> gesvdj_bufferSize acc type handle jobz econ m n b = Inr ws
          \<and> UnpackDescriptor Gesvdj opaque = Some (GesvdjDescriptor type b m n ws jobz econ)))
   \<and> (\<forall>ws opaque s'. BuildSytrdDescriptor acc dtype lower b n s = (Inr (ws, opaque), s') \<longrightarrow>
       (\<exists>type handle. DtypeToSolverType dtype = Inr type
          \<and> sytrd_bufferSize acc type handle (fill_mode lower) n = Inr ws
          \<and> UnpackDescriptor Sytrd opaque = Some (SytrdDescriptor type (fill_mode lower) b n n ws)))"
proof (intro conjI allI impI)
  fix ws opaque s'
  assume "BuildPotrfDescriptor backend acc lw dtype lower b n s = (Inr (ws, opaque), s')"
  then show "\<exists>type handle lwork w. DtypeToSolverType dtype = Inr type
          \<and> potrf_sizes backend acc lw type handle (fill_mode lower) b n = Inr (lwork, w)
          \<and> UnpackDescriptor Potrf opaque
              = Some (PotrfDescriptor type (fill_mode lower) b n lwork)
          \<and> (b = 1 \<and> representable_int (sint lwork * element_width type)
               \<longrightarrow> sint ws = sint lwork * element_width type)
          \<and> (b \<noteq> 1 \<and> backend = JAX_GPU_HIP
               \<and> representable_int (sint lwork * element_width type + sint b * pointer_width)
               \<longrightarrow> sint ws = sint lwork * element_width type + sint b * pointer_width)
          \<and> (b \<noteq> 1 \<and> backend = JAX_GPU_CUDA \<and> representable_int (sint b * pointer_width)
               \<longrightarrow> sint ws = sint b * pointer_width)"
    by (rule BuildPotrfDescriptor_sizes)
next
  fix ws opaque s'
  assume "BuildGetrfDescriptor acc dtype b m n s = (Inr (ws, opaque), s')"
  then show "\<exists>type handle. DtypeToSolverType dtype = Inr type
          \<and> getrf_bufferSize acc type handle m n = Inr ws
          \<and> UnpackDescriptor Getrf opaque = Some (GetrfDescriptor type b m n ws)"
    by (rule BuildGetrfDescriptor_Inr)
next
  fix ws opaque s'
  assume "BuildGeqrfDescriptor acc dtype b m n s = (Inr (ws, opaque), s')"
  then show "\<exists>type handle. DtypeToSolverType dtype = Inr type
          \<and> geqrf_bufferSize acc type handle m n = Inr ws
          \<and> UnpackDescriptor Geqrf opaque = Some (GeqrfDescriptor type b m n ws)"
    by (rule BuildGeqrfDescriptor_Inr)
next
  fix ws opaque s'
  assume "BuildOrgqrDescriptor acc dtype b m n k s = (Inr (ws, opaque), s')"
  then show "\<exists>type handle. DtypeToSolverType dtype = Inr type
          \<and> orgqr_bufferSize acc type handle m n k = Inr ws
          \<and> UnpackDescriptor Orgqr opaque = Some (OrgqrDescriptor type b m n k ws)"
    by (rule BuildOrgqrDescriptor_Inr)
next
  fix ws opaque s'
  assume "BuildSyevdDescriptor acc dtype lower b n s = (Inr (ws, opaque), s')"
  then show "\<exists>type handle. DtypeToSolverType dtype = Inr type
          \<and> syevd_bufferSize acc type handle GPUSOLVER_EIG_MODE_VECTOR (fill_mode lower) n = Inr ws
          \<and> UnpackDescriptor Syevd opaque = Some (SyevdDescriptor type (fill_mode lower) b n ws)"
    by (rule BuildSyevdDescriptor_Inr)
next
  fix ws opaque s'
  assume "BuildSyevjDescriptor acc dtype lower b n s = (Inr (ws, opaque), s')"
  then show "\<exists>type handle. DtypeToSolverType dtype = Inr type
          \<and> syevj_bufferSize acc type handle GPUSOLVER_EIG_MODE_VECTOR (fill_mode lower) n b = Inr ws
          \<and> UnpackDescriptor Syevj opaque = Some (SyevjDescriptor type (fill_mode lower) b n ws)"
    by (rule BuildSyevjDescriptor_Inr)
next
  fix ws opaque s'
  assume "BuildGesvdDescriptor acc dtype b m n compute_uv full_matrices s = (Inr (ws, opaque), s')"
  then show "\<exists>type handle jobu jobvt. DtypeToSolverType dtype = Inr type
          \<and> gesvd_bufferSize acc type handle jobu jobvt m n = Inr ws
          \<and> UnpackDescriptor Gesvd opaque = Some (GesvdDescriptor type b m n ws jobu jobvt)"
    by (rule BuildGesvdDescriptor_Inr)
next
  fix ws opaque s'
  assume "BuildGesvdjDescriptor acc dtype b m n compute_uv econ s = (Inr (ws, opaque), s')"
  then show "\<exists>type handle jobz. DtypeToSolverType dtype = Inr type
          \<and> gesvdj_bufferSize acc type handle jobz econ m n b = Inr ws
          \<and> UnpackDescriptor Gesvdj opaque = Some (GesvdjDescriptor type b m n ws jobz econ)"
    by (rule BuildGesvdjDescriptor_Inr)
next
  fix ws opaque s'
  assume "BuildSytrdDescriptor acc dtype lower b n s = (Inr (ws, opaque), s')"
  then show "\<exists>type handle. DtypeToSolverType dtype = Inr type
          \<and> sytrd_bufferSize acc type handle (fill_mode lower) n = Inr ws
          \<and> UnpackDescriptor Sytrd opaque = Some (SytrdDescriptor type (fill_mode lower) b n n ws)"
    by (rule BuildSytrdDescriptor_Inr)
qed

theorem workspace_size_of_builders_witness:
  "BuildPotrfDescriptor JAX_GPU_CUDA (answering 7) 7 float32 True 1 5 pool_of_one
     = (Inr (28, PackDescriptor (PotrfDescriptor F32 GPUSOLVER_FILL_MODE_LOWER 1 5 7)),
        pool_of_one)
   \<and> sint (28 :: cint) = sint (7 :: cint) * element_width F32
   \<and> BuildPotrfDescriptor JAX_GPU_HIP (answering 7) 7 float32 True 3 5 pool_of_one
     = (Inr (52, PackDescriptor (PotrfDescriptor F32 GPUSOLVER_FILL_MODE_LOWER 3 5 7)),
        pool_of_one)
   \<and> sint (52 :: cint)
      = sint (7 :: cint) * element_width F32 + sint (3 :: cint) * pointer_width
   \<and> BuildPotrfDescriptor JAX_GPU_CUDA (answering 7) 7 float32 True 2 5 pool_of_one
     = (Inr (16, PackDescriptor (PotrfDescriptor F32 GPUSOLVER_FILL_MODE_LOWER 2 5 7)),
        pool_of_one)
   \<and> sint (16 :: cint) = sint (2 :: cint) * pointer_width
   \<and> BuildGetrfDescriptor (answering 7) float32 1 5 5 pool_of_one
     = (Inr (7, PackDescriptor (GetrfDescriptor F32 1 5 5 7)), pool_of_one)
   \<and> BuildGeqrfDescriptor (answering 7) float32 1 5 5 pool_of_one
     = (Inr (7, PackDescriptor (GeqrfDescriptor F32 1 5 5 7)), pool_of_one)
   \<and> BuildOrgqrDescriptor (answering 7) float32 1 5 5 2 pool_of_one
     = (Inr (7, PackDescriptor (OrgqrDescriptor F32 1 5 5 2 7)), pool_of_one)
   \<and> BuildSyevdDescriptor (answering 7) float32 True 1 5 pool_of_one
     = (Inr (7, PackDescriptor (SyevdDescriptor F32 GPUSOLVER_FILL_MODE_LOWER 1 5 7)), pool_of_one)
   \<and> BuildSyevjDescriptor (answering 7) float32 True 1 5 pool_of_one
     = (Inr (7, PackDescriptor (SyevjDescriptor F32 GPUSOLVER_FILL_MODE_LOWER 1 5 7)), pool_of_one)
   \<and> BuildGesvdDescriptor (answering 7) float32 1 5 5 True True pool_of_one
     = (Inr (7, PackDescriptor (GesvdDescriptor F32 1 5 5 7 (CHR ''A'') (CHR ''A''))), pool_of_one)
   \<and> BuildGesvdjDescriptor (answering 7) float32 1 5 5 True 0 pool_of_one
     = (Inr (7, PackDescriptor (GesvdjDescriptor F32 1 5 5 7 GPUSOLVER_EIG_MODE_VECTOR 0)), pool_of_one)
   \<and> BuildSytrdDescriptor (answering 7) float32 True 1 5 pool_of_one
     = (Inr (7, PackDescriptor (SytrdDescriptor F32 GPUSOLVER_FILL_MODE_LOWER 1 5 5 7)), pool_of_one)"
proof -
  have type: "DtypeToSolverType float32 = Inr F32"
    by code_simp
  have run_single: "BuildPotrfDescriptor JAX_GPU_CUDA (answering 7) 7 float32 True 1 5 pool_of_one
     = (Inr (28, PackDescriptor (PotrfDescriptor F32 GPUSOLVER_FILL_MODE_LOWER 1 5 7)),
        pool_of_one)"
    by code_simp
  have unpack_single: "UnpackDescriptor Potrf
        (PackDescriptor (PotrfDescriptor F32 GPUSOLVER_FILL_MODE_LOWER 1 5 7))
      = Some (PotrfDescriptor F32 GPUSOLVER_FILL_MODE_LOWER 1 5 7)"
    using Unpack_Pack [of "PotrfDescriptor F32 GPUSOLVER_FILL_MODE_LOWER 1 5 7"] by simp
  have fits_single: "representable_int (sint (7 :: cint) * element_width F32)"
    by (simp add: representable_int_def pointer_width_def)
  from workspace_size_of_builders
    [of JAX_GPU_CUDA "answering 7" 7 float32 True 1 5 pool_of_one,
      THEN conjunct1, rule_format, OF run_single]
  obtain t l where
    "DtypeToSolverType float32 = Inr t"
    "UnpackDescriptor Potrf
        (PackDescriptor (PotrfDescriptor F32 GPUSOLVER_FILL_MODE_LOWER 1 5 7))
      = Some (PotrfDescriptor t (fill_mode True) 1 5 l)"
    "(1 :: cint) = 1 \<and> representable_int (sint l * element_width t)
     \<longrightarrow> sint (28 :: cint) = sint l * element_width t"
    by blast
  with type unpack_single fits_single
  have size_single: "sint (28 :: cint) = sint (7 :: cint) * element_width F32"
    by (simp add: pointer_width_def)
  have run_hip: "BuildPotrfDescriptor JAX_GPU_HIP (answering 7) 7 float32 True 3 5 pool_of_one
     = (Inr (52, PackDescriptor (PotrfDescriptor F32 GPUSOLVER_FILL_MODE_LOWER 3 5 7)),
        pool_of_one)"
    by code_simp
  have unpack_hip: "UnpackDescriptor Potrf
        (PackDescriptor (PotrfDescriptor F32 GPUSOLVER_FILL_MODE_LOWER 3 5 7))
      = Some (PotrfDescriptor F32 GPUSOLVER_FILL_MODE_LOWER 3 5 7)"
    using Unpack_Pack [of "PotrfDescriptor F32 GPUSOLVER_FILL_MODE_LOWER 3 5 7"] by simp
  have fits_hip: "representable_int
      (sint (7 :: cint) * element_width F32 + sint (3 :: cint) * pointer_width)"
    by (simp add: representable_int_def pointer_width_def)
  from workspace_size_of_builders
    [of JAX_GPU_HIP "answering 7" 7 float32 True 3 5 pool_of_one,
      THEN conjunct1, rule_format, OF run_hip]
  obtain t l where
    "DtypeToSolverType float32 = Inr t"
    "UnpackDescriptor Potrf
        (PackDescriptor (PotrfDescriptor F32 GPUSOLVER_FILL_MODE_LOWER 3 5 7))
      = Some (PotrfDescriptor t (fill_mode True) 3 5 l)"
    "(3 :: cint) \<noteq> 1 \<and> JAX_GPU_HIP = JAX_GPU_HIP
       \<and> representable_int (sint l * element_width t + sint (3 :: cint) * pointer_width)
     \<longrightarrow> sint (52 :: cint) = sint l * element_width t + sint (3 :: cint) * pointer_width"
    by blast
  with type unpack_hip fits_hip
  have size_hip: "sint (52 :: cint)
      = sint (7 :: cint) * element_width F32 + sint (3 :: cint) * pointer_width"
    by (simp add: pointer_width_def)
  have run_cuda: "BuildPotrfDescriptor JAX_GPU_CUDA (answering 7) 7 float32 True 2 5 pool_of_one
     = (Inr (16, PackDescriptor (PotrfDescriptor F32 GPUSOLVER_FILL_MODE_LOWER 2 5 7)),
        pool_of_one)"
    by code_simp
  have unpack_cuda: "UnpackDescriptor Potrf
        (PackDescriptor (PotrfDescriptor F32 GPUSOLVER_FILL_MODE_LOWER 2 5 7))
      = Some (PotrfDescriptor F32 GPUSOLVER_FILL_MODE_LOWER 2 5 7)"
    using Unpack_Pack [of "PotrfDescriptor F32 GPUSOLVER_FILL_MODE_LOWER 2 5 7"] by simp
  have fits_cuda: "representable_int (sint (2 :: cint) * pointer_width)"
    by (simp add: representable_int_def pointer_width_def)
  from workspace_size_of_builders
    [of JAX_GPU_CUDA "answering 7" 7 float32 True 2 5 pool_of_one,
      THEN conjunct1, rule_format, OF run_cuda]
  obtain t l where
    "DtypeToSolverType float32 = Inr t"
    "UnpackDescriptor Potrf
        (PackDescriptor (PotrfDescriptor F32 GPUSOLVER_FILL_MODE_LOWER 2 5 7))
      = Some (PotrfDescriptor t (fill_mode True) 2 5 l)"
    "(2 :: cint) \<noteq> 1 \<and> JAX_GPU_CUDA = JAX_GPU_CUDA
       \<and> representable_int (sint (2 :: cint) * pointer_width)
     \<longrightarrow> sint (16 :: cint) = sint (2 :: cint) * pointer_width"
    by blast
  with type unpack_cuda fits_cuda
  have size_cuda: "sint (16 :: cint) = sint (2 :: cint) * pointer_width"
    by (simp add: pointer_width_def)
  have runGetrf: "BuildGetrfDescriptor (answering 7) float32 1 5 5 pool_of_one
     = (Inr (7, PackDescriptor (GetrfDescriptor F32 1 5 5 7)), pool_of_one)"
    by code_simp
  have runGeqrf: "BuildGeqrfDescriptor (answering 7) float32 1 5 5 pool_of_one
     = (Inr (7, PackDescriptor (GeqrfDescriptor F32 1 5 5 7)), pool_of_one)"
    by code_simp
  have runOrgqr: "BuildOrgqrDescriptor (answering 7) float32 1 5 5 2 pool_of_one
     = (Inr (7, PackDescriptor (OrgqrDescriptor F32 1 5 5 2 7)), pool_of_one)"
    by code_simp
  have runSyevd: "BuildSyevdDescriptor (answering 7) float32 True 1 5 pool_of_one
     = (Inr (7, PackDescriptor (SyevdDescriptor F32 GPUSOLVER_FILL_MODE_LOWER 1 5 7)), pool_of_one)"
    by code_simp
  have runSyevj: "BuildSyevjDescriptor (answering 7) float32 True 1 5 pool_of_one
     = (Inr (7, PackDescriptor (SyevjDescriptor F32 GPUSOLVER_FILL_MODE_LOWER 1 5 7)), pool_of_one)"
    by code_simp
  have runGesvd: "BuildGesvdDescriptor (answering 7) float32 1 5 5 True True pool_of_one
     = (Inr (7, PackDescriptor (GesvdDescriptor F32 1 5 5 7 (CHR ''A'') (CHR ''A''))), pool_of_one)"
    by code_simp
  have runGesvdj: "BuildGesvdjDescriptor (answering 7) float32 1 5 5 True 0 pool_of_one
     = (Inr (7, PackDescriptor (GesvdjDescriptor F32 1 5 5 7 GPUSOLVER_EIG_MODE_VECTOR 0)), pool_of_one)"
    by code_simp
  have runSytrd: "BuildSytrdDescriptor (answering 7) float32 True 1 5 pool_of_one
     = (Inr (7, PackDescriptor (SytrdDescriptor F32 GPUSOLVER_FILL_MODE_LOWER 1 5 5 7)), pool_of_one)"
    by code_simp
  from run_single size_single run_hip size_hip run_cuda size_cuda runGetrf runGeqrf runOrgqr runSyevd runSyevj runGesvd runGesvdj runSytrd show ?thesis
    by (intro conjI)
qed

text \<open>
  The claim as stated fails for getrf: with a query that reports 7 elements of kind F32,
  the builder returns 7, not 28.
\<close>

theorem workspace_size_of_builders_counterexample:
  "BuildGetrfDescriptor (answering 7) float32 1 5 5 pool_of_one
     = (Inr (7, PackDescriptor (GetrfDescriptor F32 1 5 5 7)), pool_of_one)
   \<and> getrf_bufferSize (answering 7) F32 0 5 5 = Inr 7
   \<and> sint (7 :: cint) \<noteq> sint (7 :: cint) * element_width F32"
  by code_simp

end
